theory Spec2Isabelle
  imports Main "HOL-Library.Word"
begin

section \<open>Status values (absl::Status, absl::StatusOr)\<close>

text \<open>
  The program reports failures as \<^verbatim>\<open>absl::Status\<close> values. Only three status codes
  occur in \<^verbatim>\<open>main.cc\<close>: OK, INVALID_ARGUMENT and INTERNAL. A \<^verbatim>\<open>StatusOr<T>\<close> is the sum
  \<open>Status + T\<close>, with \<open>Inl\<close> holding the error.
\<close>

datatype StatusCode = kOk | kInvalidArgument | kInternal

datatype Status = Status (code: StatusCode) (message: string)

definition OkStatus :: Status where
  "OkStatus = Status kOk []"

definition InvalidArgumentError :: "string \<Rightarrow> Status" where
  "InvalidArgumentError m = Status kInvalidArgument m"

definition InternalError :: "string \<Rightarrow> Status" where
  "InternalError m = Status kInternal m"

definition ok :: "Status \<Rightarrow> bool" where
  "ok s = (code s = kOk)"

fun StatusCodeToString :: "StatusCode \<Rightarrow> string" where
  "StatusCodeToString kOk = ''OK''"
| "StatusCodeToString kInvalidArgument = ''INVALID_ARGUMENT''"
| "StatusCodeToString kInternal = ''INTERNAL''"

text \<open>\<^verbatim>\<open>Status::ToString\<close>, which \<^verbatim>\<open>operator<<\<close> on a status prints.\<close>

definition ToString :: "Status \<Rightarrow> string" where
  "ToString s = (if ok s then ''OK'' else StatusCodeToString (code s) @ '': '' @ message s)"

text \<open>\<^verbatim>\<open>BadStatusOrAccess::what\<close>, the text of the exception that \<^verbatim>\<open>StatusOr::value\<close> throws.\<close>

definition what :: "Status \<Rightarrow> string" where
  "what s = ''Bad StatusOr access: '' @ ToString s"

section \<open>The decimal parser of the Abseil library\<close>

text \<open>
  \<^verbatim>\<open>absl::SimpleAtoi(str, &result)\<close> with a \<^verbatim>\<open>uint32_t\<close> result is a function of the Abseil
  library, which the repository links but does not contain. It is modelled here after the
  library's \<^verbatim>\<open>safe_uint_internal\<close> with base 10: ASCII white space is stripped from both ends,
  one sign character is consumed (a minus sign makes the unsigned parse fail), and the rest
  must be decimal digits whose value fits in 32 bits. The accumulator is a 32-bit word, and
  the two overflow checks of the library's loop are kept.
\<close>

definition ascii_isspace :: "char \<Rightarrow> bool" where
  "ascii_isspace c = (c \<in> set [CHR 0x09, CHR 0x0A, CHR 0x0B, CHR 0x0C, CHR 0x0D, CHR 0x20])"

definition kAsciiToInt :: "char \<Rightarrow> nat" where
  "kAsciiToInt c =
     (let n = (of_char c :: nat) in
      if 48 \<le> n \<and> n \<le> 57 then n - 48
      else if 65 \<le> n \<and> n \<le> 90 then n - 55
      else if 97 \<le> n \<and> n \<le> 122 then n - 87
      else 36)"

definition vmax :: "32 word" where
  "vmax = 4294967295"

definition vmax_over_base :: "32 word" where
  "vmax_over_base = 429496729"

definition strip_spaces :: "string \<Rightarrow> string" where
  "strip_spaces s = rev (dropWhile ascii_isspace (rev (dropWhile ascii_isspace s)))"

definition safe_parse_sign_and_base :: "string \<Rightarrow> (bool \<times> string) option" where
  "safe_parse_sign_and_base text =
     (let t = strip_spaces text in
      case t of
        [] \<Rightarrow> None
      | c # cs \<Rightarrow>
          if c = CHR ''-'' \<or> c = CHR ''+''
          then (if cs = [] then None else Some (c = CHR ''-'', cs))
          else Some (False, t))"

fun safe_parse_positive_int :: "string \<Rightarrow> 32 word \<Rightarrow> 32 word option" where
  "safe_parse_positive_int [] v = Some v"
| "safe_parse_positive_int (c # cs) v =
     (let digit = (of_nat (kAsciiToInt c) :: 32 word) in
      if digit \<ge> 10 then None
      else if v > vmax_over_base then None
      else if v * 10 > vmax - digit then None
      else safe_parse_positive_int cs (v * 10 + digit))"

definition safe_uint_internal :: "string \<Rightarrow> 32 word option" where
  "safe_uint_internal text =
     (case safe_parse_sign_and_base text of
        None \<Rightarrow> None
      | Some (negative, t) \<Rightarrow> if negative then None else safe_parse_positive_int t 0)"

definition absl_SimpleAtoi :: "string \<Rightarrow> 32 word option" where
  "absl_SimpleAtoi str = safe_uint_internal str"

section \<open>The numeric argument parser of main.cc\<close>

text \<open>
  \<^verbatim>\<open>template <typename T> absl::StatusOr<T> SimpleAtoi(absl::string_view str)\<close> parses into
  a \<^verbatim>\<open>uint32_t\<close> and returns \<^verbatim>\<open>T(result)\<close>. The conversion to an 8- or 16-bit \<open>T\<close> keeps the
  low bits (\<open>ucast\<close>); an \<^verbatim>\<open>int8_t\<close> is the 8-bit word read with \<open>sint\<close>. The text of
  \<^verbatim>\<open>typeid(T).name()\<close> depends on the compiler and is a parameter.
\<close>

definition SimpleAtoi :: "string \<Rightarrow> string \<Rightarrow> Status + 'a::len word" where
  "SimpleAtoi tname str =
     (case absl_SimpleAtoi str of
        None \<Rightarrow> Inl (InvalidArgumentError (''Cannot parse as '' @ tname @ '': '' @ str))
      | Some result \<Rightarrow> Inr (ucast result))"

text \<open>
  The reading of "a base-10 unsigned 32-bit integer" that the parser is compared with:
  optional white space around an optional plus sign and a non-empty string of decimal
  digits whose value is below \<open>2 ^ 32\<close>.
\<close>

definition is_digit :: "char \<Rightarrow> bool" where
  "is_digit c = (48 \<le> (of_char c :: nat) \<and> (of_char c :: nat) \<le> 57)"

definition dec_step :: "nat \<Rightarrow> char \<Rightarrow> nat" where
  "dec_step acc c = acc * 10 + ((of_char c :: nat) - 48)"

definition decimal_value :: "string \<Rightarrow> nat" where
  "decimal_value cs = foldl dec_step 0 cs"

definition base10_u32 :: "string \<Rightarrow> nat option" where
  "base10_u32 s =
     (let t = strip_spaces s;
          d = (if t \<noteq> [] \<and> hd t = CHR ''+'' then tl t else t) in
      if d \<noteq> [] \<and> list_all is_digit d \<and> decimal_value d < 2 ^ 32
      then Some (decimal_value d) else None)"

text \<open>
  The reading of "a base-10 digit string whose value lies in [0, 65535]": nothing but
  decimal digits, at least one, and the value within 16 bits.
\<close>

definition u16_digit_string :: "string \<Rightarrow> bool" where
  "u16_digit_string t = (t \<noteq> [] \<and> list_all is_digit t \<and> decimal_value t \<le> 65535)"

section \<open>libuvc: the camera subsystem\<close>

text \<open>
  libuvc is an external C library. Its functions are the fields of a record over an
  abstract subsystem state \<open>'w\<close>: each call takes the state and returns its status code
  (a \<^verbatim>\<open>uvc_error_t\<close>, negative on failure), what it stores through its out-parameters,
  and the next state. An object of the library (context, device, device handle) is
  named by its address, a natural number; a C pointer is a \<open>nat option\<close> with \<open>None\<close> for
  \<^verbatim>\<open>nullptr\<close>, and a successful call stores the address of an object.
\<close>

datatype uvc_req_code = UVC_GET_CUR | UVC_GET_MIN | UVC_GET_MAX

record ZoomRel =
  zoom_rel :: "8 word"
  digital_zoom :: "8 word"
  speed :: "8 word"

record 'w libuvc =
  uvc_init :: "'w \<Rightarrow> (int \<times> nat) \<times> 'w"
  uvc_find_device :: "nat option \<Rightarrow> int \<Rightarrow> int \<Rightarrow> string option \<Rightarrow> 'w \<Rightarrow> (int \<times> nat) \<times> 'w"
  uvc_open :: "nat option \<Rightarrow> 'w \<Rightarrow> (int \<times> nat) \<times> 'w"
  uvc_print_diag :: "nat option \<Rightarrow> 'w \<Rightarrow> string"
  uvc_get_zoom_abs :: "nat option \<Rightarrow> uvc_req_code \<Rightarrow> 'w \<Rightarrow> (int \<times> 16 word) \<times> 'w"
  uvc_set_zoom_abs :: "nat option \<Rightarrow> 16 word \<Rightarrow> 'w \<Rightarrow> int \<times> 'w"
  uvc_get_zoom_rel :: "nat option \<Rightarrow> uvc_req_code \<Rightarrow> 'w \<Rightarrow> (int \<times> ZoomRel) \<times> 'w"
  uvc_set_zoom_rel :: "nat option \<Rightarrow> 8 word \<Rightarrow> 8 word \<Rightarrow> 8 word \<Rightarrow> 'w \<Rightarrow> int \<times> 'w"
  uvc_close :: "nat \<Rightarrow> 'w \<Rightarrow> 'w"
  uvc_unref_device :: "nat \<Rightarrow> 'w \<Rightarrow> 'w"
  uvc_exit :: "nat \<Rightarrow> 'w \<Rightarrow> 'w"
  uvc_strerror :: "int \<Rightarrow> string"

section \<open>Program state: the subsystem and the trace of what the process did\<close>

text \<open>
  Every call into libuvc and every write to an output stream is recorded, in order, in a
  trace. A call event carries the pointer that was passed and the status that came back;
  the three acquiring calls also carry the address they stored, a set carries the value
  it was given and a get the value that the library stored.
\<close>

datatype event =
    Ev_init int nat
  | Ev_find_device "nat option" int nat
  | Ev_open "nat option" int nat
  | Ev_print_diag "nat option"
  | Ev_get_zoom_abs "nat option" uvc_req_code int "16 word"
  | Ev_set_zoom_abs "nat option" "16 word" int
  | Ev_get_zoom_rel "nat option" uvc_req_code int ZoomRel
  | Ev_set_zoom_rel "nat option" ZoomRel int
  | Ev_close nat
  | Ev_unref_device nat
  | Ev_exit nat
  | Stdout string
  | Stderr string

record 'w state =
  world :: 'w
  trace :: "event list"

definition emit :: "event \<Rightarrow> 'w state \<Rightarrow> 'w state" where
  "emit e s = s\<lparr>trace := trace s @ [e]\<rparr>"

section \<open>UvcWrapper: the owning pointer\<close>

text \<open>
  \<^verbatim>\<open>UvcWrapper<T, deleter>\<close> holds one pointer \<^verbatim>\<open>value_\<close> (here \<open>value_ptr\<close>). Its
  destructor calls the deleter unless the pointer is null; its move constructor takes the
  pointer and nulls the source; its move assignment swaps the two pointers. The deleters
  are \<^verbatim>\<open>uvc_close\<close>, \<^verbatim>\<open>uvc_unref_device\<close> and \<^verbatim>\<open>uvc_exit\<close>.
\<close>

record UvcWrapper =
  value_ptr :: "nat option"

definition UvcWrapper_ctor :: "nat \<Rightarrow> UvcWrapper" where
  "UvcWrapper_ctor p = \<lparr>value_ptr = Some p\<rparr>"

text \<open>The move constructor returns the new object and the source as it is left behind.\<close>

definition UvcWrapper_move :: "UvcWrapper \<Rightarrow> UvcWrapper \<times> UvcWrapper" where
  "UvcWrapper_move other = (\<lparr>value_ptr = value_ptr other\<rparr>, other\<lparr>value_ptr := None\<rparr>)"


definition UvcWrapper_dtor ::
  "(nat \<Rightarrow> 'w state \<Rightarrow> 'w state) \<Rightarrow> UvcWrapper \<Rightarrow> 'w state \<Rightarrow> 'w state" where
  "UvcWrapper_dtor deleter this s =
     (case value_ptr this of None \<Rightarrow> s | Some p \<Rightarrow> deleter p s)"

definition call_uvc_close :: "'w libuvc \<Rightarrow> nat \<Rightarrow> 'w state \<Rightarrow> 'w state" where
  "call_uvc_close L p s = emit (Ev_close p) (s\<lparr>world := uvc_close L p (world s)\<rparr>)"

definition call_uvc_unref_device :: "'w libuvc \<Rightarrow> nat \<Rightarrow> 'w state \<Rightarrow> 'w state" where
  "call_uvc_unref_device L p s =
     emit (Ev_unref_device p) (s\<lparr>world := uvc_unref_device L p (world s)\<rparr>)"

definition call_uvc_exit :: "'w libuvc \<Rightarrow> nat \<Rightarrow> 'w state \<Rightarrow> 'w state" where
  "call_uvc_exit L p s = emit (Ev_exit p) (s\<lparr>world := uvc_exit L p (world s)\<rparr>)"

text \<open>
  \<^verbatim>\<open>T x = expr.value();\<close> for a wrapper type: \<^verbatim>\<open>value()\<close> on an error throws
  \<^verbatim>\<open>BadStatusOrAccess\<close> (here \<open>Inl\<close>); otherwise \<open>x\<close> is move-constructed from the object
  inside the temporary \<^verbatim>\<open>StatusOr\<close>, and the temporary is destroyed at the end of the
  declaration.
\<close>

definition take_value ::
  "(nat \<Rightarrow> 'w state \<Rightarrow> 'w state) \<Rightarrow> Status + UvcWrapper \<Rightarrow> 'w state
     \<Rightarrow> (Status + UvcWrapper) \<times> 'w state" where
  "take_value deleter r s =
     (case r of
        Inl e \<Rightarrow> (Inl e, s)
      | Inr tmp \<Rightarrow>
          (case UvcWrapper_move tmp of
             (x, tmp') \<Rightarrow> (Inr x, UvcWrapper_dtor deleter tmp' s)))"

text \<open>
  \<^verbatim>\<open>return Wrapper(p);\<close> from a function that returns \<^verbatim>\<open>StatusOr<Wrapper>\<close>: the object
  inside the result is move-constructed from the temporary, which is then destroyed.
\<close>

definition return_wrapper ::
  "(nat \<Rightarrow> 'w state \<Rightarrow> 'w state) \<Rightarrow> nat \<Rightarrow> 'w state \<Rightarrow> (Status + UvcWrapper) \<times> 'w state" where
  "return_wrapper deleter p s =
     (case UvcWrapper_move (UvcWrapper_ctor p) of
        (inside, tmp') \<Rightarrow> (Inr inside, UvcWrapper_dtor deleter tmp' s))"

section \<open>The wrapper classes of main.cc\<close>

text \<open>
  Each method calls one libuvc function with the wrapped pointer, records the call, and
  turns a negative status into \<^verbatim>\<open>absl::InternalError\<close> with the text
  \<^verbatim>\<open>"<function>: " + uvc_strerror(err)\<close>.
\<close>

definition GetZoomAbs ::
  "'w libuvc \<Rightarrow> UvcWrapper \<Rightarrow> uvc_req_code \<Rightarrow> 'w state \<Rightarrow> (Status + 16 word) \<times> 'w state" where
  "GetZoomAbs L this req_code s =
     (case uvc_get_zoom_abs L (value_ptr this) req_code (world s) of
        ((err, result), w') \<Rightarrow>
          (let s' = emit (Ev_get_zoom_abs (value_ptr this) req_code err result)
                      (s\<lparr>world := w'\<rparr>) in
           if err < 0
           then (Inl (InternalError (''uvc_get_zoom_abs: '' @ uvc_strerror L err)), s')
           else (Inr result, s')))"

definition SetZoomAbs ::
  "'w libuvc \<Rightarrow> UvcWrapper \<Rightarrow> 16 word \<Rightarrow> 'w state \<Rightarrow> Status \<times> 'w state" where
  "SetZoomAbs L this focal_length s =
     (case uvc_set_zoom_abs L (value_ptr this) focal_length (world s) of
        (err, w') \<Rightarrow>
          (let s' = emit (Ev_set_zoom_abs (value_ptr this) focal_length err) (s\<lparr>world := w'\<rparr>) in
           if err < 0
           then (InternalError (''uvc_set_zoom_abs: '' @ uvc_strerror L err), s')
           else (OkStatus, s')))"

definition GetZoomRel ::
  "'w libuvc \<Rightarrow> UvcWrapper \<Rightarrow> uvc_req_code \<Rightarrow> 'w state \<Rightarrow> (Status + ZoomRel) \<times> 'w state" where
  "GetZoomRel L this req_code s =
     (case uvc_get_zoom_rel L (value_ptr this) req_code (world s) of
        ((err, result), w') \<Rightarrow>
          (let s' = emit (Ev_get_zoom_rel (value_ptr this) req_code err result)
                      (s\<lparr>world := w'\<rparr>) in
           if err < 0
           then (Inl (InternalError (''uvc_get_zoom_rel: '' @ uvc_strerror L err)), s')
           else (Inr result, s')))"

definition SetZoomRel ::
  "'w libuvc \<Rightarrow> UvcWrapper \<Rightarrow> ZoomRel \<Rightarrow> 'w state \<Rightarrow> Status \<times> 'w state" where
  "SetZoomRel L this zoom s =
     (case uvc_set_zoom_rel L (value_ptr this) (zoom_rel zoom) (digital_zoom zoom) (speed zoom)
             (world s) of
        (err, w') \<Rightarrow>
          (let s' = emit (Ev_set_zoom_rel (value_ptr this) zoom err) (s\<lparr>world := w'\<rparr>) in
           if err < 0
           then (InternalError (''uvc_set_zoom_rel: '' @ uvc_strerror L err), s')
           else (OkStatus, s')))"

definition PrintDiag :: "'w libuvc \<Rightarrow> UvcWrapper \<Rightarrow> 'w state \<Rightarrow> 'w state" where
  "PrintDiag L this s =
     emit (Stdout (uvc_print_diag L (value_ptr this) (world s)))
       (emit (Ev_print_diag (value_ptr this)) s)"

definition Open :: "'w libuvc \<Rightarrow> UvcWrapper \<Rightarrow> 'w state \<Rightarrow> (Status + UvcWrapper) \<times> 'w state" where
  "Open L this s =
     (case uvc_open L (value_ptr this) (world s) of
        ((err, handle), w') \<Rightarrow>
          (let s' = emit (Ev_open (value_ptr this) err handle) (s\<lparr>world := w'\<rparr>) in
           if err < 0
           then (Inl (InternalError (''uvc_open: '' @ uvc_strerror L err)), s')
           else return_wrapper (call_uvc_close L) handle s'))"

definition Create :: "'w libuvc \<Rightarrow> 'w state \<Rightarrow> (Status + UvcWrapper) \<times> 'w state" where
  "Create L s =
     (case uvc_init L (world s) of
        ((err, ctx), w') \<Rightarrow>
          (let s' = emit (Ev_init err ctx) (s\<lparr>world := w'\<rparr>) in
           if err < 0
           then (Inl (InternalError (''uvc_init: '' @ uvc_strerror L err)), s')
           else return_wrapper (call_uvc_exit L) ctx s'))"

definition FindDevice ::
  "'w libuvc \<Rightarrow> UvcWrapper \<Rightarrow> int \<Rightarrow> int \<Rightarrow> string option \<Rightarrow> 'w state
     \<Rightarrow> (Status + UvcWrapper) \<times> 'w state" where
  "FindDevice L this vid pid sn s =
     (case uvc_find_device L (value_ptr this) vid pid sn (world s) of
        ((err, dev), w') \<Rightarrow>
          (let s' = emit (Ev_find_device (value_ptr this) err dev) (s\<lparr>world := w'\<rparr>) in
           if err < 0
           then (Inl (InternalError (''uvc_find_device: '' @ uvc_strerror L err)), s')
           else return_wrapper (call_uvc_unref_device L) dev s'))"

text \<open>
  The other revision of the file wraps the pointers in \<^verbatim>\<open>std::unique_ptr\<close> and builds the
  error with the macro \<^verbatim>\<open>RETURN_IF_UVC_ERROR(expr)\<close>, whose message starts with the text of
  the whole call expression (\<^verbatim>\<open>#expr\<close>). \<open>None\<close> stands for falling through the macro.
\<close>

definition RETURN_IF_UVC_ERROR :: "string \<Rightarrow> (int \<Rightarrow> string) \<Rightarrow> int \<Rightarrow> Status option" where
  "RETURN_IF_UVC_ERROR expr_text strerror err =
     (if err < 0 then Some (InternalError (expr_text @ '': '' @ strerror err)) else None)"

section \<open>Output formatting\<close>

text \<open>
  \<^verbatim>\<open>std::cout << x\<close> prints a \<^verbatim>\<open>uint16_t\<close> in decimal. \<^verbatim>\<open>int8_t\<close> and \<^verbatim>\<open>uint8_t\<close> are
  character types, so the stream writes the byte itself; this is what the
  \<^verbatim>\<open>operator<<\<close> of \<^verbatim>\<open>ZoomRel\<close> does with its three fields.
\<close>

fun show_nat :: "nat \<Rightarrow> string" where
  "show_nat n =
     (if n < 10 then [char_of (48 + n)]
      else show_nat (n div 10) @ [char_of (48 + n mod 10)])"

declare show_nat.simps [simp del]

definition show_u16 :: "16 word \<Rightarrow> string" where
  "show_u16 v = show_nat (unat v)"

definition show_byte :: "8 word \<Rightarrow> string" where
  "show_byte b = [char_of (unat b)]"

definition show_ZoomRel :: "ZoomRel \<Rightarrow> string" where
  "show_ZoomRel v =
     ''zoom_rel: '' @ show_byte (zoom_rel v) @
     '', digital_zoom: '' @ show_byte (digital_zoom v) @
     '', speed: '' @ show_byte (speed v)"

definition usage :: string where
  "usage = ''Usage: visca2uvc [cmd] ...\<newline>\<newline>  get_zoom_abs\<newline>  set_zoom_abs focal_length\<newline>\<newline>  get_zoom_rel\<newline>  set_zoom_rel zoom_rel digital_zoom speed\<newline>''"

section \<open>The dispatcher Visca2Uvc and main\<close>

text \<open>
  A call of \<^verbatim>\<open>Visca2Uvc\<close> either returns a status or leaves by the exception that
  \<^verbatim>\<open>StatusOr::value\<close> throws on an error, which carries that error's status.
\<close>

datatype outcome = Returned Status | Thrown Status

datatype ctype = T_int8 | T_uint8 | T_uint16

text \<open>
  The statements \<^verbatim>\<open>std::cout << label << handle.Get...(req).value() << "\n";\<close>. Since
  C++17 the operands of \<^verbatim>\<open><<\<close> are evaluated from left to right, so the label is written
  before the query is made. The result \<open>Some e\<close> is the exception thrown by \<^verbatim>\<open>value()\<close>.
\<close>

definition print_zoom_abs ::
  "'w libuvc \<Rightarrow> string \<Rightarrow> UvcWrapper \<Rightarrow> uvc_req_code \<Rightarrow> 'w state \<Rightarrow> Status option \<times> 'w state" where
  "print_zoom_abs L label handle req_code s =
     (case GetZoomAbs L handle req_code (emit (Stdout label) s) of
        (Inl e, s') \<Rightarrow> (Some e, s')
      | (Inr v, s') \<Rightarrow> (None, emit (Stdout ''\<newline>'') (emit (Stdout (show_u16 v)) s')))"

definition print_zoom_rel ::
  "'w libuvc \<Rightarrow> string \<Rightarrow> UvcWrapper \<Rightarrow> uvc_req_code \<Rightarrow> 'w state \<Rightarrow> Status option \<times> 'w state" where
  "print_zoom_rel L label handle req_code s =
     (case GetZoomRel L handle req_code (emit (Stdout label) s) of
        (Inl e, s') \<Rightarrow> (Some e, s')
      | (Inr v, s') \<Rightarrow> (None, emit (Stdout ''\<newline>'') (emit (Stdout (show_ZoomRel v)) s')))"

text \<open>The four command branches. \<open>args\<close> is the argument vector, program name first.\<close>

definition cmd_get_zoom_abs :: "'w libuvc \<Rightarrow> UvcWrapper \<Rightarrow> 'w state \<Rightarrow> outcome \<times> 'w state" where
  "cmd_get_zoom_abs L handle s =
     (case print_zoom_abs L ''min: '' handle UVC_GET_MIN s of
        (Some e, s1) \<Rightarrow> (Thrown e, s1)
      | (None, s1) \<Rightarrow>
          (case print_zoom_abs L ''max: '' handle UVC_GET_MAX s1 of
             (Some e, s2) \<Rightarrow> (Thrown e, s2)
           | (None, s2) \<Rightarrow>
               (case print_zoom_abs L ''cur: '' handle UVC_GET_CUR s2 of
                  (Some e, s3) \<Rightarrow> (Thrown e, s3)
                | (None, s3) \<Rightarrow> (Returned OkStatus, s3))))"

definition cmd_set_zoom_abs ::
  "'w libuvc \<Rightarrow> (ctype \<Rightarrow> string) \<Rightarrow> string list \<Rightarrow> UvcWrapper \<Rightarrow> 'w state
     \<Rightarrow> outcome \<times> 'w state" where
  "cmd_set_zoom_abs L tn args handle s =
     (if length args \<noteq> 3
      then (Returned (InvalidArgumentError ''set_zoom_abs needs 1 argument.''), s)
      else
        (let s1 = emit (Stdout ''set: '') s in
         case SimpleAtoi (tn T_uint16) (args ! 2) of
           Inl e \<Rightarrow> (Thrown e, s1)
         | Inr focal_length \<Rightarrow>
             (case SetZoomAbs L handle focal_length s1 of
                (st, s2) \<Rightarrow>
                  (let s3 = emit (Stdout ''\<newline>'') (emit (Stdout (ToString st)) s2) in
                   case print_zoom_abs L ''cur: '' handle UVC_GET_CUR s3 of
                     (Some e, s4) \<Rightarrow> (Thrown e, s4)
                   | (None, s4) \<Rightarrow> (Returned OkStatus, s4)))))"

definition cmd_get_zoom_rel :: "'w libuvc \<Rightarrow> UvcWrapper \<Rightarrow> 'w state \<Rightarrow> outcome \<times> 'w state" where
  "cmd_get_zoom_rel L handle s =
     (case print_zoom_rel L ''min: '' handle UVC_GET_MIN s of
        (Some e, s1) \<Rightarrow> (Thrown e, s1)
      | (None, s1) \<Rightarrow>
          (case print_zoom_rel L ''max: '' handle UVC_GET_MAX s1 of
             (Some e, s2) \<Rightarrow> (Thrown e, s2)
           | (None, s2) \<Rightarrow>
               (case print_zoom_rel L ''cur: '' handle UVC_GET_CUR s2 of
                  (Some e, s3) \<Rightarrow> (Thrown e, s3)
                | (None, s3) \<Rightarrow> (Returned OkStatus, s3))))"

definition cmd_set_zoom_rel ::
  "'w libuvc \<Rightarrow> (ctype \<Rightarrow> string) \<Rightarrow> string list \<Rightarrow> UvcWrapper \<Rightarrow> 'w state
     \<Rightarrow> outcome \<times> 'w state" where
  "cmd_set_zoom_rel L tn args handle s =
     (if length args \<noteq> 5
      then (Returned (InvalidArgumentError ''set_zoom_rel needs 3 argument.''), s)
      else
        (case SimpleAtoi (tn T_int8) (args ! 2) of
           Inl e \<Rightarrow> (Thrown e, s)
         | Inr a_zoom_rel \<Rightarrow>
             (case SimpleAtoi (tn T_uint8) (args ! 3) of
                Inl e \<Rightarrow> (Thrown e, s)
              | Inr a_digital_zoom \<Rightarrow>
                  (case SimpleAtoi (tn T_uint8) (args ! 3) of
                     Inl e \<Rightarrow> (Thrown e, s)
                   | Inr a_speed \<Rightarrow>
                       (let arg = \<lparr>zoom_rel = a_zoom_rel, digital_zoom = a_digital_zoom,
                                   speed = a_speed\<rparr>;
                            s1 = emit (Stdout ''set: '') s in
                        case SetZoomRel L handle arg s1 of
                          (st, s2) \<Rightarrow>
                            (let s3 = emit (Stdout ''\<newline>'') (emit (Stdout (ToString st)) s2) in
                             case print_zoom_rel L ''cur: '' handle UVC_GET_CUR s3 of
                               (Some e, s4) \<Rightarrow> (Thrown e, s4)
                             | (None, s4) \<Rightarrow> (Returned OkStatus, s4)))))))"

definition dispatch ::
  "'w libuvc \<Rightarrow> (ctype \<Rightarrow> string) \<Rightarrow> string list \<Rightarrow> UvcWrapper \<Rightarrow> 'w state
     \<Rightarrow> outcome \<times> 'w state" where
  "dispatch L tn args handle s =
     (let cmd = args ! 1 in
      if cmd = ''get_zoom_abs'' then cmd_get_zoom_abs L handle s
      else if cmd = ''set_zoom_abs'' then cmd_set_zoom_abs L tn args handle s
      else if cmd = ''get_zoom_rel'' then cmd_get_zoom_rel L handle s
      else if cmd = ''set_zoom_rel'' then cmd_set_zoom_rel L tn args handle s
      else (Returned OkStatus, emit (Stderr (''Unknown command: '' @ cmd @ ''\<newline>'')) s))"

text \<open>
  The body of \<^verbatim>\<open>Visca2Uvc\<close> declares three locals, \<^verbatim>\<open>uvc\<close>, \<^verbatim>\<open>dev\<close> and \<^verbatim>\<open>handle\<close>. C++
  destroys the locals of a scope in reverse order of declaration when the scope is left,
  by \<^verbatim>\<open>return\<close> or by an exception on its way to the handler in \<^verbatim>\<open>main\<close>. Each of the
  next three functions is the rest of the body after one declaration, followed by the
  destructor of that local.
\<close>

definition with_handle ::
  "'w libuvc \<Rightarrow> (ctype \<Rightarrow> string) \<Rightarrow> string list \<Rightarrow> UvcWrapper \<Rightarrow> 'w state
     \<Rightarrow> outcome \<times> 'w state" where
  "with_handle L tn args handle s =
     (case dispatch L tn args handle (PrintDiag L handle s) of
        (out, s') \<Rightarrow> (out, UvcWrapper_dtor (call_uvc_close L) handle s'))"

definition with_dev ::
  "'w libuvc \<Rightarrow> (ctype \<Rightarrow> string) \<Rightarrow> string list \<Rightarrow> UvcWrapper \<Rightarrow> 'w state
     \<Rightarrow> outcome \<times> 'w state" where
  "with_dev L tn args dev s =
     (case Open L dev s of
        (r, s1) \<Rightarrow>
          (case take_value (call_uvc_close L) r s1 of
             (Inl e, s2) \<Rightarrow> (Thrown e, UvcWrapper_dtor (call_uvc_unref_device L) dev s2)
           | (Inr handle, s2) \<Rightarrow>
               (case with_handle L tn args handle s2 of
                  (out, s3) \<Rightarrow> (out, UvcWrapper_dtor (call_uvc_unref_device L) dev s3))))"

definition with_uvc ::
  "'w libuvc \<Rightarrow> (ctype \<Rightarrow> string) \<Rightarrow> string list \<Rightarrow> UvcWrapper \<Rightarrow> 'w state
     \<Rightarrow> outcome \<times> 'w state" where
  "with_uvc L tn args uvc s =
     (case FindDevice L uvc 0 0 None s of
        (r, s1) \<Rightarrow>
          (case take_value (call_uvc_unref_device L) r s1 of
             (Inl e, s2) \<Rightarrow> (Thrown e, UvcWrapper_dtor (call_uvc_exit L) uvc s2)
           | (Inr dev, s2) \<Rightarrow>
               (case with_dev L tn args dev s2 of
                  (out, s3) \<Rightarrow> (out, UvcWrapper_dtor (call_uvc_exit L) uvc s3))))"

definition Visca2Uvc ::
  "'w libuvc \<Rightarrow> (ctype \<Rightarrow> string) \<Rightarrow> string list \<Rightarrow> 'w state \<Rightarrow> outcome \<times> 'w state" where
  "Visca2Uvc L tn args s =
     (if length args \<le> 1 then (Returned OkStatus, emit (Stdout usage) s)
      else
        (case Create L s of
           (r, s1) \<Rightarrow>
             (case take_value (call_uvc_exit L) r s1 of
                (Inl e, s2) \<Rightarrow> (Thrown e, s2)
              | (Inr uvc, s2) \<Rightarrow> with_uvc L tn args uvc s2)))"

text \<open>
  \<^verbatim>\<open>main\<close>. Its \<open>args\<close> are what \<^verbatim>\<open>absl::ParseCommandLine(argc, argv)\<close> returns: the program
  name and the positional arguments. Falling off the end of \<^verbatim>\<open>main\<close> is exit code 0.
\<close>

definition main ::
  "'w libuvc \<Rightarrow> (ctype \<Rightarrow> string) \<Rightarrow> string list \<Rightarrow> 'w state \<Rightarrow> int \<times> 'w state" where
  "main L tn args s =
     (case Visca2Uvc L tn args s of
        (Returned status, s') \<Rightarrow>
          (0, if \<not> ok status then emit (Stderr (ToString status @ ''\<newline>'')) s' else s')
      | (Thrown e, s') \<Rightarrow>
          (1, emit (Stderr (''Exception: '' @ what e @ ''\<newline>'')) s'))"

definition start :: "'w \<Rightarrow> 'w state" where
  "start w = \<lparr>world = w, trace = []\<rparr>"

text \<open>A run of the dispatcher from the subsystem state \<open>w\<close>: how it ends and what it did.\<close>

definition run_outcome :: "'w libuvc \<Rightarrow> (ctype \<Rightarrow> string) \<Rightarrow> string list \<Rightarrow> 'w \<Rightarrow> outcome" where
  "run_outcome L tn args w = fst (Visca2Uvc L tn args (start w))"

definition run_trace :: "'w libuvc \<Rightarrow> (ctype \<Rightarrow> string) \<Rightarrow> string list \<Rightarrow> 'w \<Rightarrow> event list" where
  "run_trace L tn args w = trace (snd (Visca2Uvc L tn args (start w)))"

text \<open>
  The subsystem lets the program through to the commands: from state \<open>w\<close>, \<^verbatim>\<open>uvc_init\<close>,
  then \<^verbatim>\<open>uvc_find_device\<close> on the context it stored, then \<^verbatim>\<open>uvc_open\<close> on the device, each
  come back with a status that is not negative.
\<close>

definition chain_opens :: "'w libuvc \<Rightarrow> 'w \<Rightarrow> bool" where
  "chain_opens L w =
     (case uvc_init L w of
        ((e1, ctx), w1) \<Rightarrow>
          0 \<le> e1 \<and>
          (case uvc_find_device L (Some ctx) 0 0 None w1 of
             ((e2, dev), w2) \<Rightarrow>
               0 \<le> e2 \<and>
               (case uvc_open L (Some dev) w2 of
                  ((e3, handle), w3) \<Rightarrow> 0 \<le> e3)))"

section \<open>Reading a trace\<close>

fun is_zoom_transfer :: "event \<Rightarrow> bool" where
  "is_zoom_transfer (Ev_get_zoom_abs h q e v) = True"
| "is_zoom_transfer (Ev_set_zoom_abs h v e) = True"
| "is_zoom_transfer (Ev_get_zoom_rel h q e z) = True"
| "is_zoom_transfer (Ev_set_zoom_rel h z e) = True"
| "is_zoom_transfer _ = False"

fun is_output :: "event \<Rightarrow> bool" where
  "is_output (Stdout t) = True"
| "is_output (Stderr t) = True"
| "is_output _ = False"

definition zoom_transfers :: "event list \<Rightarrow> event list" where
  "zoom_transfers tr = filter is_zoom_transfer tr"

definition subsystem_calls :: "event list \<Rightarrow> event list" where
  "subsystem_calls tr = filter (\<lambda>e. \<not> is_output e) tr"



text \<open>The texts written to the error stream, in order.\<close>

fun stderr_writes :: "event list \<Rightarrow> string list" where
  "stderr_writes [] = []"
| "stderr_writes (Stderr t # es) = t # stderr_writes es"
| "stderr_writes (e # es) = stderr_writes es"

text \<open>
  The pieces that a trace is made of. \<open>acquiring\<close>: the three acquiring calls and the
  diagnostics, which are printed before any command runs. \<open>releasing\<close>: the three releases.
  A line of a get command: the label is written, the query is made, and the value and a
  newline are written. The line of a set command: \<open>"set: "\<close>, the transfer, the text of its
  status and a newline.
\<close>

definition acquiring :: "int \<Rightarrow> nat \<Rightarrow> int \<Rightarrow> nat \<Rightarrow> int \<Rightarrow> nat \<Rightarrow> string \<Rightarrow> event list" where
  "acquiring e1 c e2 d e3 h diag =
     [Ev_init e1 c, Ev_find_device (Some c) e2 d, Ev_open (Some d) e3 h,
      Ev_print_diag (Some h), Stdout diag]"

definition releasing :: "nat \<Rightarrow> nat \<Rightarrow> nat \<Rightarrow> event list" where
  "releasing c d h = [Ev_close h, Ev_unref_device d, Ev_exit c]"





section \<open>The resource discipline, as a check on traces\<close>










text \<open>An event that is an output or a call on the device handle at address \<open>a\<close>.\<close>

fun handle_event :: "nat \<Rightarrow> event \<Rightarrow> bool" where
  "handle_event a (Ev_print_diag h) = (h = Some a)"
| "handle_event a (Ev_get_zoom_abs h q e v) = (h = Some a)"
| "handle_event a (Ev_set_zoom_abs h v e) = (h = Some a)"
| "handle_event a (Ev_get_zoom_rel h q e v) = (h = Some a)"
| "handle_event a (Ev_set_zoom_rel h z e) = (h = Some a)"
| "handle_event a (Stdout t) = True"
| "handle_event a (Stderr t) = True"
| "handle_event a _ = False"

section \<open>The statuses that can leave the dispatcher\<close>

text \<open>
  The errors of the three kinds, as the program words them: the two arity errors, the
  parse errors for the argument positions that are parsed, and, for a library status
  \<open>err\<close>, the errors of the five library calls whose failure is passed on.
\<close>

definition arity_errors :: "Status list" where
  "arity_errors =
     [InvalidArgumentError ''set_zoom_abs needs 1 argument.'',
      InvalidArgumentError ''set_zoom_rel needs 3 argument.'']"

definition parse_errors :: "(ctype \<Rightarrow> string) \<Rightarrow> string list \<Rightarrow> Status list" where
  "parse_errors tn args =
     [InvalidArgumentError (''Cannot parse as '' @ tn T_uint16 @ '': '' @ args ! 2),
      InvalidArgumentError (''Cannot parse as '' @ tn T_int8 @ '': '' @ args ! 2),
      InvalidArgumentError (''Cannot parse as '' @ tn T_uint8 @ '': '' @ args ! 3)]"

definition subsystem_errors :: "'w libuvc \<Rightarrow> int \<Rightarrow> Status list" where
  "subsystem_errors L err =
     map (\<lambda>name. InternalError (name @ '': '' @ uvc_strerror L err))
       [''uvc_init'', ''uvc_find_device'', ''uvc_open'', ''uvc_get_zoom_abs'',
        ''uvc_get_zoom_rel'']"

section \<open>A fake camera for closed examples\<close>

text \<open>
  A test double for libuvc: the status of each kind of call is fixed by the subsystem
  state, a successful set is remembered, and a get of the current value echoes it.
\<close>

record camera =
  init_status :: int
  find_status :: int
  open_status :: int
  get_status :: int
  set_status :: int
  zoom_abs_cur :: "16 word"
  zoom_rel_cur :: ZoomRel

definition fake_strerror :: "int \<Rightarrow> string" where
  "fake_strerror err =
     (if err = 0 then ''Success'' else if err = - 4 then ''No such device'' else ''Unknown error'')"

definition fake_libuvc :: "camera libuvc" where
  "fake_libuvc =
     \<lparr>uvc_init = (\<lambda>w. ((init_status w, 1), w)),
      uvc_find_device = (\<lambda>ctx vid pid sn w. ((find_status w, 2), w)),
      uvc_open = (\<lambda>dev w. ((open_status w, 3), w)),
      uvc_print_diag = (\<lambda>h w. ''DEVICE CONFIGURATION\<newline>''),
      uvc_get_zoom_abs = (\<lambda>h q w.
        ((get_status w,
          case q of UVC_GET_CUR \<Rightarrow> zoom_abs_cur w | UVC_GET_MIN \<Rightarrow> 0 | UVC_GET_MAX \<Rightarrow> 16384), w)),
      uvc_set_zoom_abs = (\<lambda>h v w.
        (set_status w, if set_status w < 0 then w else w\<lparr>zoom_abs_cur := v\<rparr>)),
      uvc_get_zoom_rel = (\<lambda>h q w. ((get_status w, zoom_rel_cur w), w)),
      uvc_set_zoom_rel = (\<lambda>h z d sp w.
        (set_status w,
         if set_status w < 0 then w
         else w\<lparr>zoom_rel_cur := \<lparr>zoom_rel = z, digital_zoom = d, speed = sp\<rparr>\<rparr>)),
      uvc_close = (\<lambda>p w. w),
      uvc_unref_device = (\<lambda>p w. w),
      uvc_exit = (\<lambda>p w. w),
      uvc_strerror = fake_strerror\<rparr>"

definition good_camera :: camera where
  "good_camera =
     \<lparr>init_status = 0, find_status = 0, open_status = 0, get_status = 0, set_status = 0,
      zoom_abs_cur = 100,
      zoom_rel_cur = \<lparr>zoom_rel = 49, digital_zoom = 48, speed = 50\<rparr>\<rparr>"

text \<open>The names that GCC and Clang give the three types.\<close>

fun gcc_names :: "ctype \<Rightarrow> string" where
  "gcc_names T_int8 = ''a''"
| "gcc_names T_uint8 = ''h''"
| "gcc_names T_uint16 = ''t''"

section \<open>The parser: what it accepts and what it returns\<close>

lemma digit_lt: "kAsciiToInt c < 37"
  unfolding kAsciiToInt_def Let_def by (cases "of_char c :: nat") auto

lemma digit_val: "is_digit c \<Longrightarrow> kAsciiToInt c = of_char c - 48"
  by (simp add: kAsciiToInt_def is_digit_def Let_def)

lemma digit_le9: "is_digit c \<Longrightarrow> kAsciiToInt c \<le> 9"
  unfolding kAsciiToInt_def is_digit_def Let_def by arith

lemma digit_ge10: "\<not> is_digit c \<Longrightarrow> kAsciiToInt c \<ge> 10"
  unfolding kAsciiToInt_def is_digit_def Let_def by arith

lemma digit_unat: "unat (of_nat (kAsciiToInt c) :: 32 word) = kAsciiToInt c"
  using digit_lt [of c] by (simp add: unat_of_nat)

lemma digit_word_ge10: "((10 :: 32 word) \<le> of_nat (kAsciiToInt c)) = (\<not> is_digit c)"
proof -
  have "((10 :: 32 word) \<le> of_nat (kAsciiToInt c)) = (10 \<le> kAsciiToInt c)"
    by (simp add: word_le_nat_alt digit_unat)
  also have "\<dots> = (\<not> is_digit c)"
    using digit_le9 [of c] digit_ge10 [of c] by auto
  finally show ?thesis .
qed

lemma foldl_dec_step_ge: "n \<le> foldl dec_step n cs"
proof (induction cs arbitrary: n)
  case Nil
  show ?case by simp
next
  case (Cons c cs)
  have "n \<le> dec_step n c" by (simp add: dec_step_def)
  also have "\<dots> \<le> foldl dec_step (dec_step n c) cs" by (rule Cons.IH)
  finally show ?case by simp
qed

lemma parse_step:
  fixes v :: "32 word"
  assumes d: "is_digit c"
  shows "safe_parse_positive_int (c # cs) v =
           (if dec_step (unat v) c < 2 ^ 32
            then safe_parse_positive_int cs (of_nat (dec_step (unat v) c)) else None)"
proof -
  let ?d = "kAsciiToInt c"
  let ?w = "of_nat ?d :: 32 word"
  have d9: "?d \<le> 9" using d by (rule digit_le9)
  have ud: "unat ?w = ?d" by (rule digit_unat)
  have dv: "dec_step (unat v) c = unat v * 10 + ?d"
    using d by (simp add: dec_step_def digit_val)
  have nd: "\<not> (10 :: 32 word) \<le> ?w" using d by (simp add: digit_word_ge10)
  show ?thesis
  proof (cases "unat v \<le> 429496729")
    case False
    then have "v > vmax_over_base"
      by (simp add: vmax_over_base_def word_less_nat_alt)
    moreover have "\<not> dec_step (unat v) c < 2 ^ 32" using False dv by simp
    ultimately show ?thesis using nd by (simp add: Let_def)
  next
    case True
    then have nv: "\<not> v > vmax_over_base"
      by (simp add: vmax_over_base_def word_less_nat_alt)
    have um: "unat (v * 10) = unat v * 10"
    proof -
      have "unat v * unat (10 :: 32 word) < 2 ^ LENGTH(32)" using True by simp
      then have "unat (v * 10) = unat v * unat (10 :: 32 word)"
        by (simp only: unat_mult_lem)
      then show ?thesis by simp
    qed
    have us: "unat (vmax - ?w) = 4294967295 - ?d"
    proof -
      have "?w \<le> vmax" using d9 by (simp add: word_le_nat_alt ud vmax_def)
      then have "unat (vmax - ?w) = unat vmax - unat ?w" by (rule unat_sub)
      then show ?thesis by (simp add: ud vmax_def)
    qed
    have cmp: "(v * 10 > vmax - ?w) = (\<not> dec_step (unat v) c < 2 ^ 32)"
      using d9 by (simp add: word_less_nat_alt um us dv) arith
    show ?thesis
    proof (cases "dec_step (unat v) c < 2 ^ 32")
      case False
      then show ?thesis using nd nv cmp by (simp add: Let_def)
    next
      case lt: True
      have "unat (v * 10) + unat ?w < 2 ^ LENGTH(32)" using lt by (simp add: um ud dv)
      then have "unat (v * 10 + ?w) = unat (v * 10) + unat ?w"
        by (simp only: unat_add_lem)
      then have "unat (v * 10 + ?w) = dec_step (unat v) c" by (simp add: um ud dv)
      then have "v * 10 + ?w = of_nat (dec_step (unat v) c)"
        by (metis of_nat_unat ucast_id)
      then show ?thesis using nd nv cmp lt by (simp add: Let_def)
    qed
  qed
qed

lemma parse_nondigit:
  assumes "\<not> is_digit c"
  shows "safe_parse_positive_int (c # cs) v = None"
proof -
  have "(10 :: 32 word) \<le> of_nat (kAsciiToInt c)"
    using assms by (simp add: digit_word_ge10)
  then show ?thesis by (simp add: Let_def)
qed

lemma safe_parse_positive_int_eq:
  "safe_parse_positive_int cs v =
     (if list_all is_digit cs \<and> foldl dec_step (unat v) cs < 2 ^ 32
      then Some (of_nat (foldl dec_step (unat v) cs)) else None)"
proof (induction cs arbitrary: v)
  case Nil
  have "unat v < 2 ^ 32" using unsigned_less [of v] by simp
  then show ?case by simp
next
  case (Cons c cs)
  show ?case
  proof (cases "is_digit c")
    case False
    then show ?thesis by (simp add: parse_nondigit del: safe_parse_positive_int.simps)
  next
    case d: True
    let ?n = "dec_step (unat v) c"
    show ?thesis
    proof (cases "?n < 2 ^ 32")
      case False
      moreover have "?n \<le> foldl dec_step ?n cs" by (rule foldl_dec_step_ge)
      ultimately have "\<not> foldl dec_step ?n cs < 2 ^ 32" by simp
      then show ?thesis using d False
        by (simp add: parse_step del: safe_parse_positive_int.simps)
    next
      case True
      then have "unat (of_nat ?n :: 32 word) = ?n" by (simp add: unat_of_nat)
      then show ?thesis using d True
        by (simp add: parse_step Cons.IH del: safe_parse_positive_int.simps)
    qed
  qed
qed

lemma parse_from_zero:
  "safe_parse_positive_int cs 0 =
     (if list_all is_digit cs \<and> decimal_value cs < 2 ^ 32
      then Some (of_nat (decimal_value cs)) else None)"
  by (simp add: safe_parse_positive_int_eq decimal_value_def)

lemma sign_not_digit: "\<not> is_digit (CHR ''-'')" "\<not> is_digit (CHR ''+'')"
  by (simp_all add: is_digit_def)

lemma absl_SimpleAtoi_eq: "absl_SimpleAtoi s = map_option of_nat (base10_u32 s)"
proof (cases "strip_spaces s")
  case Nil
  then show ?thesis
    by (simp add: absl_SimpleAtoi_def safe_uint_internal_def safe_parse_sign_and_base_def
        base10_u32_def)
next
  case (Cons c cs)
  consider (minus) "c = CHR ''-''" | (plus) "c = CHR ''+''"
    | (other) "c \<noteq> CHR ''-''" "c \<noteq> CHR ''+''" by blast
  then show ?thesis
  proof cases
    case minus
    then show ?thesis using Cons
      by (simp add: absl_SimpleAtoi_def safe_uint_internal_def safe_parse_sign_and_base_def
          base10_u32_def Let_def sign_not_digit)
  next
    case plus
    then show ?thesis using Cons
      by (simp add: absl_SimpleAtoi_def safe_uint_internal_def safe_parse_sign_and_base_def
          base10_u32_def Let_def parse_from_zero del: safe_parse_positive_int.simps)
  next
    case other
    have "safe_parse_positive_int (c # cs) 0 =
        (if list_all is_digit (c # cs) \<and> decimal_value (c # cs) < 2 ^ 32
         then Some (of_nat (decimal_value (c # cs))) else None)"
      by (rule parse_from_zero)
    then show ?thesis using other Cons
      by (simp add: absl_SimpleAtoi_def safe_uint_internal_def safe_parse_sign_and_base_def
          base10_u32_def Let_def del: safe_parse_positive_int.simps)
  qed
qed

lemma in_set_dropWhile: "x \<in> set xs \<Longrightarrow> \<not> P x \<Longrightarrow> x \<in> set (dropWhile P xs)"
  by (induction xs) auto

lemma minus_in_strip: "CHR ''-'' \<in> set s \<Longrightarrow> CHR ''-'' \<in> set (strip_spaces s)"
  by (simp add: strip_spaces_def in_set_dropWhile ascii_isspace_def)

lemma base10_u32_minus:
  assumes "CHR ''-'' \<in> set s"
  shows "base10_u32 s = None"
proof -
  let ?t = "strip_spaces s"
  let ?d = "if ?t \<noteq> [] \<and> hd ?t = CHR ''+'' then tl ?t else ?t"
  have m: "CHR ''-'' \<in> set ?t" using assms by (rule minus_in_strip)
  have "CHR ''-'' \<in> set ?d"
  proof (cases ?t)
    case Nil
    then show ?thesis using m by simp
  next
    case (Cons c cs)
    then show ?thesis using m by auto
  qed
  then have "\<not> list_all is_digit ?d"
    using sign_not_digit(1) by (auto simp: list_all_iff)
  then show ?thesis by (simp add: base10_u32_def Let_def)
qed


lemma sint_u8: "sint (w :: 8 word) = (if unat w < 128 then int (unat w) else int (unat w) - 256)"
proof -
  have b: "uint w < 256" "0 \<le> uint w" using uint_bounded [of w] by simp_all
  have s: "sint w = (uint w + 128) mod 256 - 128"
    by (simp add: sint_uint signed_take_bit_eq_take_bit_shift take_bit_eq_mod)
  have u: "int (unat w) = uint w" by simp
  show ?thesis
  proof (cases "unat w < 128")
    case True
    then have lt: "uint w < 128" using u by linarith
    have "(uint w + 128) mod 256 = uint w + 128"
      using lt b by (intro mod_pos_pos_trivial) simp_all
    then show ?thesis using True s u by simp
  next
    case False
    then have ge: "128 \<le> uint w" using u by linarith
    have "uint w + 128 = uint w - 128 + 256" by linarith
    then have "(uint w + 128) mod 256 = (uint w - 128 + 256) mod 256" by (rule arg_cong)
    also have "\<dots> = (uint w - 128) mod 256" by (simp only: mod_add_self2)
    also have "\<dots> = uint w - 128"
      using ge b by (intro mod_pos_pos_trivial) simp_all
    finally show ?thesis using False s u by simp
  qed
qed


lemma base10_u32_less: "base10_u32 s = Some n \<Longrightarrow> n < 2 ^ 32"
  by (simp add: base10_u32_def Let_def split: if_splits)

lemma SimpleAtoi_eq:
  "(SimpleAtoi tn s :: Status + 'a::len word) =
     (case base10_u32 s of
        None \<Rightarrow> Inl (InvalidArgumentError (''Cannot parse as '' @ tn @ '': '' @ s))
      | Some n \<Rightarrow> Inr (ucast (of_nat n :: 32 word)))"
  by (simp add: SimpleAtoi_def absl_SimpleAtoi_eq split: option.splits)

lemma unat_narrow:
  assumes "n < 2 ^ 32"
  shows "unat (ucast (of_nat n :: 32 word) :: 'a::len word) = n mod 2 ^ LENGTH('a)"
proof -
  have "unat (of_nat n :: 32 word) = n" using assms by (simp add: unat_of_nat)
  then show ?thesis by (simp add: unsigned_ucast_eq take_bit_eq_mod)
qed

lemma SimpleAtoi_minus:
  "(SimpleAtoi tn (a @ CHR ''-'' # b) :: Status + 'a::len word) =
     Inl (InvalidArgumentError (''Cannot parse as '' @ tn @ '': '' @ a @ CHR ''-'' # b))"
proof -
  have "base10_u32 (a @ CHR ''-'' # b) = None" by (rule base10_u32_minus) simp
  then show ?thesis by (simp add: SimpleAtoi_eq)
qed

lemma ten_le_one: "((10 :: 32 word) \<le> 1) = False"
  by (simp add: word_le_nat_alt)

lemmas parser_eval = ten_le_one SimpleAtoi_def absl_SimpleAtoi_def safe_uint_internal_def
  safe_parse_sign_and_base_def strip_spaces_def ascii_isspace_def kAsciiToInt_def
  vmax_def vmax_over_base_def Let_def

text \<open>
  Claim C9. For the widths u8, i8 and u16 and every string \<open>s\<close>, \<open>SimpleAtoi\<close> succeeds
  exactly when \<open>s\<close> is a base-10 unsigned 32-bit integer (\<open>base10_u32 s\<close> is \<open>Some n\<close>), and
  then returns \<open>n\<close> reduced modulo \<open>2 ^ 16\<close> or \<open>2 ^ 8\<close>, read in two's complement for the
  signed type. So every string that contains a minus sign is rejected, \<open>"-5"\<close> among them,
  while \<open>"70000"\<close> is accepted at 16 bits as 4464 and \<open>"300"\<close> at 8 bits as 44.
\<close>

theorem SimpleAtoi_reduces_modulo_width:
  "(case base10_u32 s of
      None \<Rightarrow>
        (SimpleAtoi tn s :: Status + 16 word) =
          Inl (InvalidArgumentError (''Cannot parse as '' @ tn @ '': '' @ s)) \<and>
        (SimpleAtoi tn s :: Status + 8 word) =
          Inl (InvalidArgumentError (''Cannot parse as '' @ tn @ '': '' @ s))
    | Some n \<Rightarrow>
        n < 2 ^ 32 \<and>
        (\<exists>r :: 16 word. SimpleAtoi tn s = Inr r \<and> unat r = n mod 2 ^ 16) \<and>
        (\<exists>r :: 8 word. SimpleAtoi tn s = Inr r \<and> unat r = n mod 2 ^ 8 \<and>
           sint r = (if n mod 2 ^ 8 < 128 then int (n mod 2 ^ 8) else int (n mod 2 ^ 8) - 256)))
   \<and> isl (SimpleAtoi tn (a @ CHR ''-'' # b) :: Status + 8 word)
   \<and> isl (SimpleAtoi tn (a @ CHR ''-'' # b) :: Status + 16 word)
   \<and> (SimpleAtoi tn ''-5'' :: Status + 8 word) =
        Inl (InvalidArgumentError (''Cannot parse as '' @ tn @ '': -5''))
   \<and> (SimpleAtoi tn ''70000'' :: Status + 16 word) = Inr 4464
   \<and> (SimpleAtoi tn ''300'' :: Status + 8 word) = Inr 44"
proof -
  have main: "(case base10_u32 s of
      None \<Rightarrow>
        (SimpleAtoi tn s :: Status + 16 word) =
          Inl (InvalidArgumentError (''Cannot parse as '' @ tn @ '': '' @ s)) \<and>
        (SimpleAtoi tn s :: Status + 8 word) =
          Inl (InvalidArgumentError (''Cannot parse as '' @ tn @ '': '' @ s))
    | Some n \<Rightarrow>
        n < 2 ^ 32 \<and>
        (\<exists>r :: 16 word. SimpleAtoi tn s = Inr r \<and> unat r = n mod 2 ^ 16) \<and>
        (\<exists>r :: 8 word. SimpleAtoi tn s = Inr r \<and> unat r = n mod 2 ^ 8 \<and>
           sint r = (if n mod 2 ^ 8 < 128 then int (n mod 2 ^ 8) else int (n mod 2 ^ 8) - 256)))"
  proof (cases "base10_u32 s")
    case None
    then show ?thesis by (simp add: SimpleAtoi_eq)
  next
    case (Some n)
    then have lt: "n < 2 ^ 32" by (rule base10_u32_less)
    have u16: "unat (ucast (of_nat n :: 32 word) :: 16 word) = n mod 2 ^ 16"
      using unat_narrow [OF lt, where 'a = 16] by simp
    have u8: "unat (ucast (of_nat n :: 32 word) :: 8 word) = n mod 2 ^ 8"
      using unat_narrow [OF lt, where 'a = 8] by simp
    have s8: "sint (ucast (of_nat n :: 32 word) :: 8 word) =
        (if n mod 2 ^ 8 < 128 then int (n mod 2 ^ 8) else int (n mod 2 ^ 8) - 256)"
      by (simp only: sint_u8 u8)
    show ?thesis using Some lt u16 u8 s8 by (simp add: SimpleAtoi_eq)
  qed
  have m8: "isl (SimpleAtoi tn (a @ CHR ''-'' # b) :: Status + 8 word)"
    by (simp add: SimpleAtoi_minus)
  have m16: "isl (SimpleAtoi tn (a @ CHR ''-'' # b) :: Status + 16 word)"
    by (simp add: SimpleAtoi_minus)
  have e1: "(SimpleAtoi tn ''-5'' :: Status + 8 word) =
        Inl (InvalidArgumentError (''Cannot parse as '' @ tn @ '': -5''))"
    by (simp add: parser_eval)
  have e2: "(SimpleAtoi tn ''70000'' :: Status + 16 word) = Inr 4464"
    by (simp add: parser_eval)
  have e3: "(SimpleAtoi tn ''300'' :: Status + 8 word) = Inr 44"
    by (simp add: parser_eval)
  from main m8 m16 e1 e2 e3 show ?thesis by (intro conjI)
qed



lemma digit_not_space: "is_digit c \<Longrightarrow> \<not> ascii_isspace c"
  by (auto simp: is_digit_def ascii_isspace_def)

lemma digit_not_plus: "is_digit c \<Longrightarrow> c \<noteq> CHR ''+''"
  by (auto simp: is_digit_def)

lemma strip_spaces_digits:
  assumes "list_all is_digit t"
  shows "strip_spaces t = t"
proof (cases "t = []")
  case True
  then show ?thesis by (simp add: strip_spaces_def)
next
  case False
  have h: "is_digit (hd t)" using assms False by (cases t) simp_all
  have l: "is_digit (last t)" using assms False by (simp add: list_all_iff)
  have "dropWhile ascii_isspace t = t"
    using h by (simp add: dropWhile_eq_self_iff digit_not_space)
  moreover have "dropWhile ascii_isspace (rev t) = rev t"
    using l False by (simp add: dropWhile_eq_self_iff hd_rev digit_not_space)
  ultimately show ?thesis by (simp add: strip_spaces_def)
qed

lemma base10_u32_digits:
  assumes "u16_digit_string t"
  shows "base10_u32 t = Some (decimal_value t)"
proof -
  from assms have ne: "t \<noteq> []" and d: "list_all is_digit t" and v: "decimal_value t \<le> 65535"
    by (simp_all add: u16_digit_string_def)
  have "is_digit (hd t)" using d ne by (cases t) simp_all
  then have "hd t \<noteq> CHR ''+''" by (rule digit_not_plus)
  then show ?thesis using ne d v
    by (simp add: base10_u32_def strip_spaces_digits Let_def)
qed

lemma narrow_of_nat:
  assumes "n < 2 ^ 32"
  shows "(ucast (of_nat n :: 32 word) :: 'a::len word) = of_nat n"
proof (rule unsigned_word_eqI [where ?'a = nat])
  show "unat (ucast (of_nat n :: 32 word) :: 'a word) = unat (of_nat n :: 'a word)"
    using unat_narrow [OF assms, where 'a = 'a] by (simp add: unat_of_nat)
qed

lemma u16_digit_string_70000: "\<not> u16_digit_string ''70000''"
  by (simp add: u16_digit_string_def decimal_value_def dec_step_def)

text \<open>
  Claim C2 says that the parser at width u16 succeeds only on a digit string whose value is
  at most 65535 and fails on \<open>"70000"\<close>. It does not: \<open>"70000"\<close> is no such string, and the
  parser returns 4464 for it.
\<close>

theorem u16_parser_truncates_counterexample:
  "\<not> u16_digit_string ''70000'' \<and>
   (SimpleAtoi (gcc_names T_uint16) ''70000'' :: Status + 16 word) = Inr 4464"
  by (simp add: u16_digit_string_70000 parser_eval)

text \<open>
  Claim C2, amended. The parser at width u16 succeeds exactly when the token, with white
  space at both ends and one leading plus sign removed, is a non-empty string of decimal
  digits whose value is below \<open>2 ^ 32\<close>; the result is that value modulo 65536. Every digit
  string whose value is at most 65535 is accepted with its own value, \<open>"0"\<close> with 0; a
  larger value is truncated, \<open>"70000"\<close> to 4464.
\<close>

theorem SimpleAtoi_u16_accepts_32_bit_values:
  "isl (SimpleAtoi tn t :: Status + 16 word) = (base10_u32 t = None)
   \<and> (case base10_u32 t of
        None \<Rightarrow> True
      | Some n \<Rightarrow> n < 2 ^ 32 \<and> (SimpleAtoi tn t :: Status + 16 word) = Inr (of_nat (n mod 65536)))
   \<and> (u16_digit_string t \<longrightarrow>
        (SimpleAtoi tn t :: Status + 16 word) = Inr (of_nat (decimal_value t)))
   \<and> (SimpleAtoi tn ''0'' :: Status + 16 word) = Inr 0
   \<and> (SimpleAtoi tn ''70000'' :: Status + 16 word) = Inr 4464
   \<and> (SimpleAtoi tn '' +7 '' :: Status + 16 word) = Inr 7"
proof -
  have a: "isl (SimpleAtoi tn t :: Status + 16 word) = (base10_u32 t = None)"
    by (simp add: SimpleAtoi_eq split: option.splits)
  have b: "(case base10_u32 t of
        None \<Rightarrow> True
      | Some n \<Rightarrow> n < 2 ^ 32 \<and> (SimpleAtoi tn t :: Status + 16 word) = Inr (of_nat (n mod 65536)))"
  proof (cases "base10_u32 t")
    case None
    then show ?thesis by simp
  next
    case (Some n)
    then have lt: "n < 2 ^ 32" by (rule base10_u32_less)
    have "unat (ucast (of_nat n :: 32 word) :: 16 word) = n mod 65536"
      using unat_narrow [OF lt, where 'a = 16] by simp
    then have "(ucast (of_nat n :: 32 word) :: 16 word) = of_nat (n mod 65536)"
      by (metis of_nat_unat ucast_id)
    then show ?thesis using Some lt by (simp add: SimpleAtoi_eq)
  qed
  have c: "u16_digit_string t \<longrightarrow>
        (SimpleAtoi tn t :: Status + 16 word) = Inr (of_nat (decimal_value t))"
  proof
    assume u: "u16_digit_string t"
    then have "base10_u32 t = Some (decimal_value t)" by (rule base10_u32_digits)
    moreover have "decimal_value t < 2 ^ 32" using u by (simp add: u16_digit_string_def)
    ultimately show "(SimpleAtoi tn t :: Status + 16 word) = Inr (of_nat (decimal_value t))"
      by (simp add: SimpleAtoi_eq narrow_of_nat)
  qed
  have e1: "(SimpleAtoi tn ''0'' :: Status + 16 word) = Inr 0" by (simp add: parser_eval)
  have e2: "(SimpleAtoi tn ''70000'' :: Status + 16 word) = Inr 4464" by (simp add: parser_eval)
  have e3: "(SimpleAtoi tn '' +7 '' :: Status + 16 word) = Inr 7" by (simp add: parser_eval)
  from a b c e1 e2 e3 show ?thesis by (intro conjI)
qed


theorem SimpleAtoi_u16_accepts_32_bit_values_witness:
  "u16_digit_string ''500'' \<and> (SimpleAtoi ''t'' ''500'' :: Status + 16 word) = Inr 500"
proof -
  have h: "u16_digit_string ''500''"
    by (simp add: u16_digit_string_def is_digit_def decimal_value_def dec_step_def)
  have d: "decimal_value ''500'' = 500"
    by (simp add: decimal_value_def dec_step_def)
  from SimpleAtoi_u16_accepts_32_bit_values [of "''t''" "''500''"] h d
  show ?thesis by simp
qed

section \<open>The zoom operations and the exit code\<close>

lemma not_ok_InternalError: "\<not> ok (InternalError m)"
  by (simp add: ok_def InternalError_def)

lemma not_ok_InvalidArgumentError: "\<not> ok (InvalidArgumentError m)"
  by (simp add: ok_def InvalidArgumentError_def)

lemma ok_OkStatus: "ok OkStatus"
  by (simp add: ok_def OkStatus_def)

lemma trace_emit: "trace (emit e s) = trace s @ [e]"
  by (simp add: emit_def)

lemma world_emit: "world (emit e s) = world s"
  by (simp add: emit_def)

text \<open>
  Claim C5. Each of the four zoom operations makes exactly one library call and returns
  success exactly when the status of that call is not negative; for a negative status it
  returns an error whose message is the name of the call followed by the library's own
  text for the status. The macro of the other revision does the same with the text of the
  call expression in front.
\<close>

theorem zoom_transfers_translate_status:
  "(case uvc_get_zoom_abs L (value_ptr h) q (world s) of
      ((err, result), w') \<Rightarrow>
        fst (GetZoomAbs L h q s) =
          (if err < 0 then Inl (InternalError (''uvc_get_zoom_abs: '' @ uvc_strerror L err))
           else Inr result) \<and>
        isl (fst (GetZoomAbs L h q s)) = (err < 0) \<and>
        trace (snd (GetZoomAbs L h q s)) = trace s @ [Ev_get_zoom_abs (value_ptr h) q err result] \<and>
        world (snd (GetZoomAbs L h q s)) = w')
   \<and> (case uvc_set_zoom_abs L (value_ptr h) v (world s) of
      (err, w') \<Rightarrow>
        fst (SetZoomAbs L h v s) =
          (if err < 0 then InternalError (''uvc_set_zoom_abs: '' @ uvc_strerror L err)
           else OkStatus) \<and>
        ok (fst (SetZoomAbs L h v s)) = (0 \<le> err) \<and>
        trace (snd (SetZoomAbs L h v s)) = trace s @ [Ev_set_zoom_abs (value_ptr h) v err] \<and>
        world (snd (SetZoomAbs L h v s)) = w')
   \<and> (case uvc_get_zoom_rel L (value_ptr h) q (world s) of
      ((err, result), w') \<Rightarrow>
        fst (GetZoomRel L h q s) =
          (if err < 0 then Inl (InternalError (''uvc_get_zoom_rel: '' @ uvc_strerror L err))
           else Inr result) \<and>
        isl (fst (GetZoomRel L h q s)) = (err < 0) \<and>
        trace (snd (GetZoomRel L h q s)) = trace s @ [Ev_get_zoom_rel (value_ptr h) q err result] \<and>
        world (snd (GetZoomRel L h q s)) = w')
   \<and> (case uvc_set_zoom_rel L (value_ptr h) (zoom_rel z) (digital_zoom z) (speed z) (world s) of
      (err, w') \<Rightarrow>
        fst (SetZoomRel L h z s) =
          (if err < 0 then InternalError (''uvc_set_zoom_rel: '' @ uvc_strerror L err)
           else OkStatus) \<and>
        ok (fst (SetZoomRel L h z s)) = (0 \<le> err) \<and>
        trace (snd (SetZoomRel L h z s)) = trace s @ [Ev_set_zoom_rel (value_ptr h) z err] \<and>
        world (snd (SetZoomRel L h z s)) = w')
   \<and> RETURN_IF_UVC_ERROR expr_text strerror e =
        (if e < 0 then Some (InternalError (expr_text @ '': '' @ strerror e)) else None)"
proof -
  have a: "(case uvc_get_zoom_abs L (value_ptr h) q (world s) of
      ((err, result), w') \<Rightarrow>
        fst (GetZoomAbs L h q s) =
          (if err < 0 then Inl (InternalError (''uvc_get_zoom_abs: '' @ uvc_strerror L err))
           else Inr result) \<and>
        isl (fst (GetZoomAbs L h q s)) = (err < 0) \<and>
        trace (snd (GetZoomAbs L h q s)) = trace s @ [Ev_get_zoom_abs (value_ptr h) q err result] \<and>
        world (snd (GetZoomAbs L h q s)) = w')"
    by (simp add: GetZoomAbs_def Let_def trace_emit world_emit split: prod.splits)
  have b: "(case uvc_set_zoom_abs L (value_ptr h) v (world s) of
      (err, w') \<Rightarrow>
        fst (SetZoomAbs L h v s) =
          (if err < 0 then InternalError (''uvc_set_zoom_abs: '' @ uvc_strerror L err)
           else OkStatus) \<and>
        ok (fst (SetZoomAbs L h v s)) = (0 \<le> err) \<and>
        trace (snd (SetZoomAbs L h v s)) = trace s @ [Ev_set_zoom_abs (value_ptr h) v err] \<and>
        world (snd (SetZoomAbs L h v s)) = w')"
    by (simp add: SetZoomAbs_def Let_def trace_emit world_emit not_ok_InternalError ok_OkStatus
        split: prod.splits)
  have c: "(case uvc_get_zoom_rel L (value_ptr h) q (world s) of
      ((err, result), w') \<Rightarrow>
        fst (GetZoomRel L h q s) =
          (if err < 0 then Inl (InternalError (''uvc_get_zoom_rel: '' @ uvc_strerror L err))
           else Inr result) \<and>
        isl (fst (GetZoomRel L h q s)) = (err < 0) \<and>
        trace (snd (GetZoomRel L h q s)) = trace s @ [Ev_get_zoom_rel (value_ptr h) q err result] \<and>
        world (snd (GetZoomRel L h q s)) = w')"
    by (simp add: GetZoomRel_def Let_def trace_emit world_emit split: prod.splits)
  have d: "(case uvc_set_zoom_rel L (value_ptr h) (zoom_rel z) (digital_zoom z) (speed z) (world s) of
      (err, w') \<Rightarrow>
        fst (SetZoomRel L h z s) =
          (if err < 0 then InternalError (''uvc_set_zoom_rel: '' @ uvc_strerror L err)
           else OkStatus) \<and>
        ok (fst (SetZoomRel L h z s)) = (0 \<le> err) \<and>
        trace (snd (SetZoomRel L h z s)) = trace s @ [Ev_set_zoom_rel (value_ptr h) z err] \<and>
        world (snd (SetZoomRel L h z s)) = w')"
    by (simp add: SetZoomRel_def Let_def trace_emit world_emit not_ok_InternalError ok_OkStatus
        split: prod.splits)
  have e: "RETURN_IF_UVC_ERROR expr_text strerror e =
        (if e < 0 then Some (InternalError (expr_text @ '': '' @ strerror e)) else None)"
    by (simp add: RETURN_IF_UVC_ERROR_def)
  from a b c d e show ?thesis by (intro conjI)
qed


lemmas run_eval = main_def Visca2Uvc_def with_uvc_def with_dev_def with_handle_def dispatch_def
  cmd_get_zoom_abs_def cmd_set_zoom_abs_def cmd_get_zoom_rel_def cmd_set_zoom_rel_def
  print_zoom_abs_def print_zoom_rel_def Create_def FindDevice_def Open_def PrintDiag_def
  GetZoomAbs_def SetZoomAbs_def GetZoomRel_def SetZoomRel_def
  take_value_def return_wrapper_def UvcWrapper_move_def UvcWrapper_ctor_def UvcWrapper_dtor_def
  call_uvc_close_def call_uvc_unref_device_def call_uvc_exit_def emit_def start_def
  fake_libuvc_def good_camera_def fake_strerror_def
  ok_def OkStatus_def InvalidArgumentError_def InternalError_def ToString_def what_def Let_def


text \<open>
  Claim C10. When \<open>Visca2Uvc\<close> returns, with any status, the process exits with code 0, and
  a status that is not OK only adds its text to the error stream; the exit code is 1
  exactly when an exception leaves \<open>Visca2Uvc\<close>. The arity error of \<open>set_zoom_abs\<close> without
  an argument is such a returned status.
\<close>

theorem exit_code_follows_exception:
  "(case Visca2Uvc L tn args s of
      (Returned st, s') \<Rightarrow>
        fst (main L tn args s) = 0 \<and>
        trace (snd (main L tn args s)) =
          trace s' @ (if ok st then [] else [Stderr (ToString st @ ''\<newline>'')])
    | (Thrown e, s') \<Rightarrow>
        fst (main L tn args s) = 1 \<and>
        trace (snd (main L tn args s)) =
          trace s' @ [Stderr (''Exception: '' @ what e @ ''\<newline>'')])
   \<and> (fst (main L tn args s) = 1) = (\<exists>e. fst (Visca2Uvc L tn args s) = Thrown e)
   \<and> (fst (main L tn args s) = 0) = (\<exists>st. fst (Visca2Uvc L tn args s) = Returned st)
   \<and> fst (Visca2Uvc fake_libuvc gcc_names [''visca2uvc'', ''set_zoom_abs''] (start good_camera)) =
        Returned (InvalidArgumentError ''set_zoom_abs needs 1 argument.'')
   \<and> fst (main fake_libuvc gcc_names [''visca2uvc'', ''set_zoom_abs''] (start good_camera)) = 0
   \<and> stderr_writes
        (trace (snd (main fake_libuvc gcc_names [''visca2uvc'', ''set_zoom_abs'']
           (start good_camera)))) =
        [''INVALID_ARGUMENT: set_zoom_abs needs 1 argument.\<newline>'']"
proof -
  have a: "(case Visca2Uvc L tn args s of
      (Returned st, s') \<Rightarrow>
        fst (main L tn args s) = 0 \<and>
        trace (snd (main L tn args s)) =
          trace s' @ (if ok st then [] else [Stderr (ToString st @ ''\<newline>'')])
    | (Thrown e, s') \<Rightarrow>
        fst (main L tn args s) = 1 \<and>
        trace (snd (main L tn args s)) =
          trace s' @ [Stderr (''Exception: '' @ what e @ ''\<newline>'')])"
    by (simp add: main_def trace_emit split: prod.splits outcome.splits)
  have b: "(fst (main L tn args s) = 1) = (\<exists>e. fst (Visca2Uvc L tn args s) = Thrown e)"
    by (simp add: main_def split: prod.splits outcome.splits)
  have c: "(fst (main L tn args s) = 0) = (\<exists>st. fst (Visca2Uvc L tn args s) = Returned st)"
    by (simp add: main_def split: prod.splits outcome.splits)
  have d: "fst (Visca2Uvc fake_libuvc gcc_names [''visca2uvc'', ''set_zoom_abs'']
        (start good_camera)) = Returned (InvalidArgumentError ''set_zoom_abs needs 1 argument.'')"
    by (simp add: run_eval)
  have e: "fst (main fake_libuvc gcc_names [''visca2uvc'', ''set_zoom_abs''] (start good_camera)) = 0"
    by (simp add: run_eval)
  have f: "stderr_writes
        (trace (snd (main fake_libuvc gcc_names [''visca2uvc'', ''set_zoom_abs'']
           (start good_camera)))) =
        [''INVALID_ARGUMENT: set_zoom_abs needs 1 argument.\<newline>'']"
    by (simp add: run_eval)
  from a b c d e f show ?thesis by (intro conjI)
qed


section \<open>The shape of a run\<close>

lemmas scope_defs = Visca2Uvc_def with_uvc_def with_dev_def with_handle_def
  Create_def FindDevice_def Open_def PrintDiag_def
  take_value_def return_wrapper_def UvcWrapper_move_def UvcWrapper_ctor_def UvcWrapper_dtor_def
  call_uvc_close_def call_uvc_unref_device_def call_uvc_exit_def emit_def Let_def

lemma Visca2Uvc_cases:
  assumes "1 < length args"
  shows "Visca2Uvc L tn args s =
   (case uvc_init L (world s) of
      ((e1, c), w1) \<Rightarrow>
        if e1 < 0
        then (Thrown (InternalError (''uvc_init: '' @ uvc_strerror L e1)),
              s\<lparr>world := w1, trace := trace s @ [Ev_init e1 c]\<rparr>)
        else
          (case uvc_find_device L (Some c) 0 0 None w1 of
             ((e2, d), w2) \<Rightarrow>
               if e2 < 0
               then (Thrown (InternalError (''uvc_find_device: '' @ uvc_strerror L e2)),
                     s\<lparr>world := uvc_exit L c w2,
                       trace := trace s @ [Ev_init e1 c, Ev_find_device (Some c) e2 d, Ev_exit c]\<rparr>)
               else
                 (case uvc_open L (Some d) w2 of
                    ((e3, h), w3) \<Rightarrow>
                      if e3 < 0
                      then (Thrown (InternalError (''uvc_open: '' @ uvc_strerror L e3)),
                            s\<lparr>world := uvc_exit L c (uvc_unref_device L d w3),
                              trace := trace s @
                                [Ev_init e1 c, Ev_find_device (Some c) e2 d, Ev_open (Some d) e3 h,
                                 Ev_unref_device d, Ev_exit c]\<rparr>)
                      else
                        (case dispatch L tn args \<lparr>value_ptr = Some h\<rparr>
                                (s\<lparr>world := w3,
                                   trace := trace s @
                                     [Ev_init e1 c, Ev_find_device (Some c) e2 d,
                                      Ev_open (Some d) e3 h, Ev_print_diag (Some h),
                                      Stdout (uvc_print_diag L (Some h) w3)]\<rparr>) of
                           (out, s2) \<Rightarrow>
                             (out,
                              s2\<lparr>world := uvc_exit L c (uvc_unref_device L d (uvc_close L h (world s2))),
                                 trace := trace s2 @ [Ev_close h, Ev_unref_device d, Ev_exit c]\<rparr>)))))"
  using assms by (simp add: scope_defs split: prod.splits)


lemmas cmd_defs = dispatch_def cmd_get_zoom_abs_def cmd_set_zoom_abs_def cmd_get_zoom_rel_def
  cmd_set_zoom_rel_def print_zoom_abs_def print_zoom_rel_def
  GetZoomAbs_def SetZoomAbs_def GetZoomRel_def SetZoomRel_def emit_def Let_def






lemma dispatch_handle_events:
  "\<exists>es. trace (snd (dispatch L tn args \<lparr>value_ptr = Some a\<rparr> s)) = trace s @ es \<and>
        list_all (handle_event a) es"
  by (auto simp: cmd_defs split: prod.splits if_splits sum.splits)

lemma dispatch_failed_get_abs:
  assumes "dispatch L tn args h s = (out, s')" and "trace s' = trace s @ es"
    and "Ev_get_zoom_abs p q a v \<in> set es" and "a < 0"
  shows "out = Thrown (InternalError (''uvc_get_zoom_abs: '' @ uvc_strerror L a))"
  using assms
  by (auto simp: cmd_defs split: prod.splits if_splits sum.splits)

lemma dispatch_failed_get_rel:
  assumes "dispatch L tn args h s = (out, s')" and "trace s' = trace s @ es"
    and "Ev_get_zoom_rel p q a v \<in> set es" and "a < 0"
  shows "out = Thrown (InternalError (''uvc_get_zoom_rel: '' @ uvc_strerror L a))"
  using assms
  by (auto simp: cmd_defs split: prod.splits if_splits sum.splits)

lemma dispatch_failed_set_abs:
  assumes "dispatch L tn args h s = (out, s')" and "trace s' = trace s @ es"
    and "Ev_set_zoom_abs p v e \<in> set es" and "e < 0"
  shows "Stdout (''INTERNAL: uvc_set_zoom_abs: '' @ uvc_strerror L e) \<in> set es \<and>
         (\<exists>a v'. Ev_get_zoom_abs p UVC_GET_CUR a v' \<in> set es \<and>
                  (out = Returned OkStatus) = (0 \<le> a))"
  using assms
  by (auto simp: cmd_defs ToString_def ok_def InternalError_def OkStatus_def
      split: prod.splits if_splits sum.splits)

lemma dispatch_failed_set_rel:
  assumes "dispatch L tn args h s = (out, s')" and "trace s' = trace s @ es"
    and "Ev_set_zoom_rel p z e \<in> set es" and "e < 0"
  shows "Stdout (''INTERNAL: uvc_set_zoom_rel: '' @ uvc_strerror L e) \<in> set es \<and>
         (\<exists>a v'. Ev_get_zoom_rel p UVC_GET_CUR a v' \<in> set es \<and>
                  (out = Returned OkStatus) = (0 \<le> a))"
  using assms
  by (auto simp: cmd_defs ToString_def ok_def InternalError_def OkStatus_def
      split: prod.splits if_splits sum.splits)

lemma run_cases:
  assumes "1 < length args"
  obtains
    (init) e1 c where "e1 < 0"
      and "run_outcome L tn args w = Thrown (InternalError (''uvc_init: '' @ uvc_strerror L e1))"
      and "run_trace L tn args w = [Ev_init e1 c]"
  | (find) e1 c e2 d where "0 \<le> e1" and "e2 < 0"
      and "run_outcome L tn args w =
             Thrown (InternalError (''uvc_find_device: '' @ uvc_strerror L e2))"
      and "run_trace L tn args w = [Ev_init e1 c, Ev_find_device (Some c) e2 d, Ev_exit c]"
  | (opn) e1 c e2 d e3 h where "0 \<le> e1" and "0 \<le> e2" and "e3 < 0"
      and "run_outcome L tn args w = Thrown (InternalError (''uvc_open: '' @ uvc_strerror L e3))"
      and "run_trace L tn args w =
             [Ev_init e1 c, Ev_find_device (Some c) e2 d, Ev_open (Some d) e3 h,
              Ev_unref_device d, Ev_exit c]"
  | (cmd) e1 c e2 d e3 h diag s1 s2 es where "0 \<le> e1" and "0 \<le> e2" and "0 \<le> e3"
      and "chain_opens L w"
      and "dispatch L tn args \<lparr>value_ptr = Some h\<rparr> s1 = (run_outcome L tn args w, s2)"
      and "trace s2 = trace s1 @ es" and "list_all (handle_event h) es"
      and "run_trace L tn args w = acquiring e1 c e2 d e3 h diag @ es @ releasing c d h"
proof -
  obtain e1 c w1 where i: "uvc_init L w = ((e1, c), w1)"
    by (metis surj_pair)
  obtain e2 d w2 where f: "uvc_find_device L (Some c) 0 0 None w1 = ((e2, d), w2)"
    by (metis surj_pair)
  obtain e3 h w3 where p: "uvc_open L (Some d) w2 = ((e3, h), w3)"
    by (metis surj_pair)
  let ?s1 = "(start w)\<lparr>world := w3,
      trace := trace (start w) @
        [Ev_init e1 c, Ev_find_device (Some c) e2 d, Ev_open (Some d) e3 h,
         Ev_print_diag (Some h), Stdout (uvc_print_diag L (Some h) w3)]\<rparr>"
  consider "e1 < 0" | "0 \<le> e1" "e2 < 0" | "0 \<le> e1" "0 \<le> e2" "e3 < 0"
    | "0 \<le> e1" "0 \<le> e2" "0 \<le> e3" by linarith
  then show ?thesis
  proof cases
    case 1
    then show ?thesis using assms i
      by (intro init [of e1 c])
         (simp_all add: run_outcome_def run_trace_def Visca2Uvc_cases start_def)
  next
    case 2
    then show ?thesis using assms i f
      by (intro find [of e1 e2 c d])
         (simp_all add: run_outcome_def run_trace_def Visca2Uvc_cases start_def)
  next
    case 3
    then show ?thesis using assms i f p
      by (intro opn [of e1 e2 e3 c d h])
         (simp_all add: run_outcome_def run_trace_def Visca2Uvc_cases start_def)
  next
    case 4
    obtain out s2 where d: "dispatch L tn args \<lparr>value_ptr = Some h\<rparr> ?s1 = (out, s2)"
      by (metis surj_pair)
    obtain es where es: "trace s2 = trace ?s1 @ es" and he: "list_all (handle_event h) es"
      using dispatch_handle_events [of L tn args h ?s1] d by auto
    have o: "run_outcome L tn args w = out"
      using 4 assms i f p d
      by (simp add: run_outcome_def Visca2Uvc_cases start_def)
    have t: "run_trace L tn args w =
        acquiring e1 c e2 d e3 h (uvc_print_diag L (Some h) w3) @ es @ releasing c d h"
      using 4 assms i f p d es
      by (simp add: run_trace_def Visca2Uvc_cases start_def acquiring_def releasing_def)
    have c: "chain_opens L w" using 4 i f p by (simp add: chain_opens_def)
    show ?thesis using 4 c d es he t unfolding o [symmetric]
      by (intro cmd [of e1 e2 e3 h ?s1 s2 es c d "uvc_print_diag L (Some h) w3"]) simp_all
  qed
qed
















section \<open>Arity errors\<close>

text \<open>
  Claim C3 says that no subsystem call is made before an arity error. With a camera that
  answers every call, \<open>set_zoom_abs\<close> without an argument returns the error after the
  context was created, the device found and opened and the diagnostics printed.
\<close>

theorem arity_check_follows_device_open_counterexample:
  "fst (Visca2Uvc fake_libuvc gcc_names [''visca2uvc'', ''set_zoom_abs''] (start good_camera)) =
     Returned (InvalidArgumentError ''set_zoom_abs needs 1 argument.'')
   \<and> subsystem_calls (trace (snd (Visca2Uvc fake_libuvc gcc_names [''visca2uvc'', ''set_zoom_abs'']
        (start good_camera)))) =
     [Ev_init 0 1, Ev_find_device (Some 1) 0 2, Ev_open (Some 2) 0 3, Ev_print_diag (Some 3),
      Ev_close 3, Ev_unref_device 2, Ev_exit 1]"
  by (simp add: run_eval subsystem_calls_def)

text \<open>
  Claim C3, amended. When \<open>set_zoom_abs\<close> is given another number of arguments than 1, or
  \<open>set_zoom_rel\<close> another number than 3, and context, device and handle can be acquired,
  the dispatcher returns the InvalidArgument error of that command; the subsystem calls
  it made are the three acquiring calls and the diagnostics before the check and the
  three releases after it, and no zoom control transfer.
\<close>

theorem arity_error_after_device_open:
  assumes "1 < length args" and "chain_opens L (world s)"
    and "(args ! 1 = ''set_zoom_abs'' \<and> length args \<noteq> 3) \<or>
         (args ! 1 = ''set_zoom_rel'' \<and> length args \<noteq> 5)"
  shows "\<exists>e1 c e2 d e3 h diag.
     fst (Visca2Uvc L tn args s) =
       Returned (InvalidArgumentError
         (if args ! 1 = ''set_zoom_abs'' then ''set_zoom_abs needs 1 argument.''
          else ''set_zoom_rel needs 3 argument.'')) \<and>
     trace (snd (Visca2Uvc L tn args s)) =
       trace s @ acquiring e1 c e2 d e3 h diag @ releasing c d h \<and>
     zoom_transfers (trace (snd (Visca2Uvc L tn args s))) = zoom_transfers (trace s)"
  using assms
  by (auto simp: Visca2Uvc_cases chain_opens_def dispatch_def cmd_set_zoom_abs_def
      cmd_set_zoom_rel_def zoom_transfers_def acquiring_def releasing_def split: prod.splits)

theorem arity_error_after_device_open_witness:
  "1 < length [''visca2uvc'', ''set_zoom_rel'', ''5'', ''1'']
   \<and> chain_opens fake_libuvc (world (start good_camera))
   \<and> [''visca2uvc'', ''set_zoom_rel'', ''5'', ''1''] ! 1 = ''set_zoom_rel''
   \<and> length [''visca2uvc'', ''set_zoom_rel'', ''5'', ''1''] \<noteq> 5
   \<and> fst (Visca2Uvc fake_libuvc gcc_names [''visca2uvc'', ''set_zoom_rel'', ''5'', ''1'']
        (start good_camera)) =
      Returned (InvalidArgumentError ''set_zoom_rel needs 3 argument.'')
   \<and> zoom_transfers (trace (snd (Visca2Uvc fake_libuvc gcc_names
        [''visca2uvc'', ''set_zoom_rel'', ''5'', ''1''] (start good_camera)))) = []"
proof -
  let ?args = "[''visca2uvc'', ''set_zoom_rel'', ''5'', ''1'']"
  have h1: "1 < length ?args" by simp
  have h2: "chain_opens fake_libuvc (world (start good_camera))"
    by (simp add: chain_opens_def fake_libuvc_def good_camera_def start_def)
  have h3: "(?args ! 1 = ''set_zoom_abs'' \<and> length ?args \<noteq> 3) \<or>
         (?args ! 1 = ''set_zoom_rel'' \<and> length ?args \<noteq> 5)" by simp
  have z: "zoom_transfers (trace (start good_camera)) = []"
    by (simp add: start_def zoom_transfers_def)
  from arity_error_after_device_open [OF h1 h2 h3, of gcc_names] h1 h2 z
  show ?thesis by auto
qed

section \<open>Unknown commands\<close>

text \<open>
  Claim C8 says that an unknown command leaves the exit code at 0. The command name is
  looked at only after context, device and handle were acquired: when no device is found,
  the unknown command \<open>foo\<close> ends with exit code 1, and the one line on the error stream is
  that of the exception.
\<close>

theorem unknown_command_without_device_counterexample:
  "[''visca2uvc'', ''foo''] ! 1 \<notin>
      {''get_zoom_abs'', ''set_zoom_abs'', ''get_zoom_rel'', ''set_zoom_rel''}
   \<and> fst (main fake_libuvc gcc_names [''visca2uvc'', ''foo'']
        (start (good_camera\<lparr>find_status := - 4\<rparr>))) = 1
   \<and> stderr_writes (trace (snd (main fake_libuvc gcc_names [''visca2uvc'', ''foo'']
        (start (good_camera\<lparr>find_status := - 4\<rparr>))))) =
      [''Exception: Bad StatusOr access: INTERNAL: uvc_find_device: No such device\<newline>'']"
  by (simp add: run_eval)

text \<open>
  Claim C8, amended. For every command name that is not one of the four, the program makes
  no zoom control transfer and writes to the error stream exactly once. When context,
  device and handle are acquired, what it writes there is the line
  \<open>"Unknown command: <name>"\<close>, and it exits with code 0. When one of them is not acquired,
  the dispatcher is left by an exception, what is written there is the line
  \<open>"Exception: ..."\<close> of that exception, and the exit code is 1.
\<close>

theorem unknown_command_is_reported:
  assumes "1 < length args"
    and "args ! 1 \<notin> {''get_zoom_abs'', ''set_zoom_abs'', ''get_zoom_rel'', ''set_zoom_rel''}"
  shows "zoom_transfers (trace (snd (main L tn args (start w)))) = []
    \<and> length (stderr_writes (trace (snd (main L tn args (start w))))) = 1
    \<and> (chain_opens L w \<longrightarrow>
         fst (main L tn args (start w)) = 0 \<and>
         stderr_writes (trace (snd (main L tn args (start w)))) =
           [''Unknown command: '' @ args ! 1 @ ''\<newline>''])
    \<and> (\<not> chain_opens L w \<longrightarrow>
         fst (main L tn args (start w)) = 1 \<and>
         (\<exists>e. run_outcome L tn args w = Thrown e \<and>
            stderr_writes (trace (snd (main L tn args (start w)))) =
              [''Exception: '' @ what e @ ''\<newline>'']))"
proof -
  have d: "dispatch L tn args h s =
      (Returned OkStatus, emit (Stderr (''Unknown command: '' @ args ! 1 @ ''\<newline>'')) s)" for h s
    using assms(2) by (simp add: dispatch_def)
  have a: "zoom_transfers (trace (snd (main L tn args (start w)))) = []"
    using assms(1)
    by (simp add: main_def Visca2Uvc_cases d emit_def start_def zoom_transfers_def ok_OkStatus
        split: prod.splits)
  have b: "chain_opens L w \<longrightarrow>
         fst (main L tn args (start w)) = 0 \<and>
         stderr_writes (trace (snd (main L tn args (start w)))) =
           [''Unknown command: '' @ args ! 1 @ ''\<newline>'']"
    using assms(1)
    by (simp add: main_def Visca2Uvc_cases d emit_def start_def chain_opens_def ok_OkStatus
        split: prod.splits)
  have c: "length (stderr_writes (trace (snd (main L tn args (start w))))) = 1"
    using assms(1)
    by (simp add: main_def Visca2Uvc_cases d emit_def start_def ok_OkStatus
        split: prod.splits)
  have e: "\<not> chain_opens L w \<longrightarrow>
         fst (main L tn args (start w)) = 1 \<and>
         (\<exists>e. run_outcome L tn args w = Thrown e \<and>
            stderr_writes (trace (snd (main L tn args (start w)))) =
              [''Exception: '' @ what e @ ''\<newline>''])"
    using assms(1)
    by (auto simp: main_def run_outcome_def Visca2Uvc_cases emit_def start_def chain_opens_def
        split: prod.splits)
  from a c b e show ?thesis by (intro conjI)
qed

theorem unknown_command_is_reported_witness:
  "1 < length [''visca2uvc'', ''foo'']
   \<and> [''visca2uvc'', ''foo''] ! 1 \<notin>
        {''get_zoom_abs'', ''set_zoom_abs'', ''get_zoom_rel'', ''set_zoom_rel''}
   \<and> chain_opens fake_libuvc good_camera
   \<and> fst (main fake_libuvc gcc_names [''visca2uvc'', ''foo''] (start good_camera)) = 0
   \<and> stderr_writes (trace (snd (main fake_libuvc gcc_names [''visca2uvc'', ''foo'']
        (start good_camera)))) = [''Unknown command: foo\<newline>'']
   \<and> zoom_transfers (trace (snd (main fake_libuvc gcc_names [''visca2uvc'', ''foo'']
        (start good_camera)))) = []
   \<and> \<not> chain_opens fake_libuvc (good_camera\<lparr>open_status := - 1\<rparr>)
   \<and> fst (main fake_libuvc gcc_names [''visca2uvc'', ''foo'']
        (start (good_camera\<lparr>open_status := - 1\<rparr>))) = 1
   \<and> length (stderr_writes (trace (snd (main fake_libuvc gcc_names [''visca2uvc'', ''foo'']
        (start (good_camera\<lparr>open_status := - 1\<rparr>)))))) = 1
   \<and> zoom_transfers (trace (snd (main fake_libuvc gcc_names [''visca2uvc'', ''foo'']
        (start (good_camera\<lparr>open_status := - 1\<rparr>))))) = []"
proof -
  have h1: "1 < length [''visca2uvc'', ''foo'']" by simp
  have h2: "[''visca2uvc'', ''foo''] ! 1 \<notin>
        {''get_zoom_abs'', ''set_zoom_abs'', ''get_zoom_rel'', ''set_zoom_rel''}" by simp
  have h3: "chain_opens fake_libuvc good_camera"
    by (simp add: chain_opens_def fake_libuvc_def good_camera_def)
  have h4: "\<not> chain_opens fake_libuvc (good_camera\<lparr>open_status := - 1\<rparr>)"
    by (simp add: chain_opens_def fake_libuvc_def good_camera_def)
  from unknown_command_is_reported [OF h1 h2, of fake_libuvc gcc_names good_camera]
    unknown_command_is_reported [OF h1 h2, of fake_libuvc gcc_names
      "good_camera\<lparr>open_status := - 1\<rparr>"] h1 h2 h3 h4
  show ?thesis by simp
qed

section \<open>Which failures are returned and which are thrown\<close>

text \<open>
  Claim C7 says that no expected failure becomes an exception. When no device is found,
  which is a subsystem error, the dispatcher leaves by an exception and the process exits
  with code 1.
\<close>

theorem subsystem_error_is_thrown_counterexample:
  "fst (Visca2Uvc fake_libuvc gcc_names [''visca2uvc'', ''get_zoom_abs'']
       (start (good_camera\<lparr>find_status := - 4\<rparr>))) =
     Thrown (InternalError ''uvc_find_device: No such device'')
   \<and> fst (main fake_libuvc gcc_names [''visca2uvc'', ''get_zoom_abs'']
       (start (good_camera\<lparr>find_status := - 4\<rparr>))) = 1
   \<and> stderr_writes (trace (snd (main fake_libuvc gcc_names [''visca2uvc'', ''get_zoom_abs'']
       (start (good_camera\<lparr>find_status := - 4\<rparr>))))) =
     [''Exception: Bad StatusOr access: INTERNAL: uvc_find_device: No such device\<newline>'']"
  by (simp add: run_eval)

lemma SimpleAtoi_Inl:
  "(SimpleAtoi tname str :: Status + 'a::len word) = Inl e \<Longrightarrow>
     e = InvalidArgumentError (''Cannot parse as '' @ tname @ '': '' @ str)"
  by (simp add: SimpleAtoi_def split: option.splits)

lemma returned_status:
  assumes "fst (Visca2Uvc L tn args s) = Returned st"
  shows "st = OkStatus \<or> st \<in> set arity_errors"
proof (cases "1 < length args")
  case False
  then show ?thesis using assms by (simp add: Visca2Uvc_def)
next
  case True
  then have "\<exists>h s1 s2. dispatch L tn args h s1 = (Returned st, s2)"
    using assms by (auto simp: Visca2Uvc_cases split: prod.splits if_splits)
  then show ?thesis
    by (auto simp: dispatch_def cmd_get_zoom_abs_def cmd_get_zoom_rel_def cmd_set_zoom_abs_def
        cmd_set_zoom_rel_def arity_errors_def Let_def
        split: prod.splits if_splits sum.splits option.splits)
qed

lemmas get_defs = print_zoom_abs_def print_zoom_rel_def
  GetZoomAbs_def SetZoomAbs_def GetZoomRel_def SetZoomRel_def emit_def Let_def

lemma print_zoom_abs_thrown:
  "print_zoom_abs L label h q s = (Some e, s') \<Longrightarrow>
     \<exists>err. err < 0 \<and> e = InternalError (''uvc_get_zoom_abs: '' @ uvc_strerror L err)"
  by (auto simp: get_defs split: prod.splits if_splits)

lemma print_zoom_rel_thrown:
  "print_zoom_rel L label h q s = (Some e, s') \<Longrightarrow>
     \<exists>err. err < 0 \<and> e = InternalError (''uvc_get_zoom_rel: '' @ uvc_strerror L err)"
  by (auto simp: get_defs split: prod.splits if_splits)

lemma subsystem_errors_abs:
  "InternalError (''uvc_get_zoom_abs: '' @ uvc_strerror L err) \<in> set (subsystem_errors L err)"
  by (simp add: subsystem_errors_def)

lemma subsystem_errors_rel:
  "InternalError (''uvc_get_zoom_rel: '' @ uvc_strerror L err) \<in> set (subsystem_errors L err)"
  by (simp add: subsystem_errors_def)

lemma cmd_get_zoom_abs_thrown:
  assumes "fst (cmd_get_zoom_abs L h s) = Thrown e"
  shows "\<exists>err. err < 0 \<and> e \<in> set (subsystem_errors L err)"
proof -
  from assms obtain label q s' s'' where "print_zoom_abs L label h q s' = (Some e, s'')"
    by (auto simp: cmd_get_zoom_abs_def split: prod.splits option.splits)
  then show ?thesis using print_zoom_abs_thrown subsystem_errors_abs by blast
qed

lemma cmd_get_zoom_rel_thrown:
  assumes "fst (cmd_get_zoom_rel L h s) = Thrown e"
  shows "\<exists>err. err < 0 \<and> e \<in> set (subsystem_errors L err)"
proof -
  from assms obtain label q s' s'' where "print_zoom_rel L label h q s' = (Some e, s'')"
    by (auto simp: cmd_get_zoom_rel_def split: prod.splits option.splits)
  then show ?thesis using print_zoom_rel_thrown subsystem_errors_rel by blast
qed

lemma cmd_set_zoom_abs_thrown:
  assumes "fst (cmd_set_zoom_abs L tn args h s) = Thrown e"
  shows "(\<exists>err. err < 0 \<and> e \<in> set (subsystem_errors L err)) \<or> e \<in> set (parse_errors tn args)"
proof -
  from assms consider
      (parse) "(SimpleAtoi (tn T_uint16) (args ! 2) :: Status + 16 word) = Inl e"
    | (get) label q s' s'' where "print_zoom_abs L label h q s' = (Some e, s'')"
    by (auto simp: cmd_set_zoom_abs_def Let_def
        split: prod.splits option.splits sum.splits if_splits)
  then show ?thesis
  proof cases
    case parse
    then show ?thesis by (auto simp: parse_errors_def dest: SimpleAtoi_Inl)
  next
    case get
    then show ?thesis using print_zoom_abs_thrown subsystem_errors_abs by blast
  qed
qed

lemma cmd_set_zoom_rel_thrown:
  assumes "fst (cmd_set_zoom_rel L tn args h s) = Thrown e"
  shows "(\<exists>err. err < 0 \<and> e \<in> set (subsystem_errors L err)) \<or> e \<in> set (parse_errors tn args)"
proof -
  from assms consider
      (parse1) "(SimpleAtoi (tn T_int8) (args ! 2) :: Status + 8 word) = Inl e"
    | (parse2) "(SimpleAtoi (tn T_uint8) (args ! 3) :: Status + 8 word) = Inl e"
    | (get) label q s' s'' where "print_zoom_rel L label h q s' = (Some e, s'')"
    by (auto simp: cmd_set_zoom_rel_def Let_def
        split: prod.splits option.splits sum.splits if_splits)
  then show ?thesis
  proof cases
    case parse1
    then show ?thesis by (auto simp: parse_errors_def dest: SimpleAtoi_Inl)
  next
    case parse2
    then show ?thesis by (auto simp: parse_errors_def dest: SimpleAtoi_Inl)
  next
    case get
    then show ?thesis using print_zoom_rel_thrown subsystem_errors_rel by blast
  qed
qed

lemma dispatch_thrown:
  assumes "fst (dispatch L tn args h s) = Thrown e"
  shows "(\<exists>err. err < 0 \<and> e \<in> set (subsystem_errors L err)) \<or> e \<in> set (parse_errors tn args)"
  using assms cmd_get_zoom_abs_thrown [of L h s e] cmd_get_zoom_rel_thrown [of L h s e]
    cmd_set_zoom_abs_thrown [of L tn args h s e] cmd_set_zoom_rel_thrown [of L tn args h s e]
  by (simp add: dispatch_def Let_def split: if_splits)

lemma thrown_status:
  assumes "fst (Visca2Uvc L tn args s) = Thrown e"
  shows "(\<exists>err. err < 0 \<and> e \<in> set (subsystem_errors L err)) \<or> e \<in> set (parse_errors tn args)"
proof (cases "1 < length args")
  case False
  then show ?thesis using assms by (simp add: Visca2Uvc_def)
next
  case True
  obtain e1 c w1 where i: "uvc_init L (world s) = ((e1, c), w1)"
    by (metis surj_pair)
  obtain e2 d w2 where f: "uvc_find_device L (Some c) 0 0 None w1 = ((e2, d), w2)"
    by (metis surj_pair)
  obtain e3 h w3 where p: "uvc_open L (Some d) w2 = ((e3, h), w3)"
    by (metis surj_pair)
  show ?thesis
  proof (cases "e1 < 0 \<or> e2 < 0 \<or> e3 < 0")
    case fail: True
    then have "\<exists>err. err < 0 \<and> e \<in> set (subsystem_errors L err)"
      using True assms i f p
      by (auto simp: Visca2Uvc_cases subsystem_errors_def split: if_splits)
    then show ?thesis by simp
  next
    case False
    then obtain s1 where "fst (dispatch L tn args \<lparr>value_ptr = Some h\<rparr> s1) = Thrown e"
      using True assms i f p by (auto simp: Visca2Uvc_cases case_prod_beta split: if_splits)
    then show ?thesis by (rule dispatch_thrown)
  qed
qed


lemma chain_fails_thrown:
  assumes "1 < length args" and "\<not> chain_opens L (world s)"
  shows "\<exists>e. fst (Visca2Uvc L tn args s) = Thrown e"
  using assms
  by (auto simp: Visca2Uvc_cases chain_opens_def split: prod.splits)

lemma not_handle_event:
  "list_all (handle_event h) es \<Longrightarrow> Ev_init e c \<notin> set es"
  "list_all (handle_event h) es \<Longrightarrow> Ev_find_device p e c \<notin> set es"
  "list_all (handle_event h) es \<Longrightarrow> Ev_open p e c \<notin> set es"
  by (auto simp: list_all_iff)

lemma thrown_init:
  assumes "Ev_init e c \<in> set (run_trace L tn args w)" and "e < 0"
  shows "run_outcome L tn args w = Thrown (InternalError (''uvc_init: '' @ uvc_strerror L e))"
proof (cases "1 < length args")
  case False
  then show ?thesis using assms
    by (simp add: run_trace_def Visca2Uvc_def start_def emit_def)
next
  case True
  then show ?thesis using assms
    by (cases rule: run_cases [of args L tn w])
       (auto simp: acquiring_def releasing_def not_handle_event)
qed

lemma thrown_find:
  assumes "Ev_find_device p e d \<in> set (run_trace L tn args w)" and "e < 0"
  shows "run_outcome L tn args w =
           Thrown (InternalError (''uvc_find_device: '' @ uvc_strerror L e))"
proof (cases "1 < length args")
  case False
  then show ?thesis using assms
    by (simp add: run_trace_def Visca2Uvc_def start_def emit_def)
next
  case True
  then show ?thesis using assms
    by (cases rule: run_cases [of args L tn w])
       (auto simp: acquiring_def releasing_def not_handle_event)
qed

lemma thrown_open:
  assumes "Ev_open p e h \<in> set (run_trace L tn args w)" and "e < 0"
  shows "run_outcome L tn args w = Thrown (InternalError (''uvc_open: '' @ uvc_strerror L e))"
proof (cases "1 < length args")
  case False
  then show ?thesis using assms
    by (simp add: run_trace_def Visca2Uvc_def start_def emit_def)
next
  case True
  then show ?thesis using assms
    by (cases rule: run_cases [of args L tn w])
       (auto simp: acquiring_def releasing_def not_handle_event)
qed

lemma thrown_get_abs:
  assumes "Ev_get_zoom_abs p q a v \<in> set (run_trace L tn args w)" and "a < 0"
  shows "run_outcome L tn args w =
           Thrown (InternalError (''uvc_get_zoom_abs: '' @ uvc_strerror L a))"
proof (cases "1 < length args")
  case False
  then show ?thesis using assms
    by (simp add: run_trace_def Visca2Uvc_def start_def emit_def)
next
  case True
  then show ?thesis using assms
    by (cases rule: run_cases [of args L tn w])
       (auto simp: acquiring_def releasing_def dest: dispatch_failed_get_abs)
qed

lemma thrown_get_rel:
  assumes "Ev_get_zoom_rel p q a v \<in> set (run_trace L tn args w)" and "a < 0"
  shows "run_outcome L tn args w =
           Thrown (InternalError (''uvc_get_zoom_rel: '' @ uvc_strerror L a))"
proof (cases "1 < length args")
  case False
  then show ?thesis using assms
    by (simp add: run_trace_def Visca2Uvc_def start_def emit_def)
next
  case True
  then show ?thesis using assms
    by (cases rule: run_cases [of args L tn w])
       (auto simp: acquiring_def releasing_def dest: dispatch_failed_get_rel)
qed

lemma failed_set_abs_goes_on:
  assumes "Ev_set_zoom_abs p v e \<in> set (run_trace L tn args w)" and "e < 0"
  shows "Stdout (''INTERNAL: uvc_set_zoom_abs: '' @ uvc_strerror L e)
           \<in> set (run_trace L tn args w) \<and>
         (\<exists>a v'. Ev_get_zoom_abs p UVC_GET_CUR a v' \<in> set (run_trace L tn args w) \<and>
                  (run_outcome L tn args w = Returned OkStatus) = (0 \<le> a))"
proof (cases "1 < length args")
  case False
  then show ?thesis using assms
    by (simp add: run_trace_def Visca2Uvc_def start_def emit_def)
next
  case True
  then show ?thesis using assms
  proof (cases rule: run_cases [of args L tn w])
    case (cmd e1 c e2 d e3 h diag s1 s2 es)
    then have "Ev_set_zoom_abs p v e \<in> set es"
      using assms by (auto simp: acquiring_def releasing_def)
    from dispatch_failed_set_abs [OF cmd(5) cmd(6) this assms(2)]
    show ?thesis using cmd(8) by auto
  qed auto
qed

lemma failed_set_rel_goes_on:
  assumes "Ev_set_zoom_rel p z e \<in> set (run_trace L tn args w)" and "e < 0"
  shows "Stdout (''INTERNAL: uvc_set_zoom_rel: '' @ uvc_strerror L e)
           \<in> set (run_trace L tn args w) \<and>
         (\<exists>a v'. Ev_get_zoom_rel p UVC_GET_CUR a v' \<in> set (run_trace L tn args w) \<and>
                  (run_outcome L tn args w = Returned OkStatus) = (0 \<le> a))"
proof (cases "1 < length args")
  case False
  then show ?thesis using assms
    by (simp add: run_trace_def Visca2Uvc_def start_def emit_def)
next
  case True
  then show ?thesis using assms
  proof (cases rule: run_cases [of args L tn w])
    case (cmd e1 c e2 d e3 h diag s1 s2 es)
    then have "Ev_set_zoom_rel p z e \<in> set es"
      using assms by (auto simp: acquiring_def releasing_def)
    from dispatch_failed_set_rel [OF cmd(5) cmd(6) this assms(2)]
    show ?thesis using cmd(8) by auto
  qed auto
qed

lemma parse_thrown_abs:
  assumes "1 < length args" and "chain_opens L w"
    and "args ! 1 = ''set_zoom_abs''" and "length args = 3"
    and "(SimpleAtoi (tn T_uint16) (args ! 2) :: Status + 16 word) = Inl e"
  shows "run_outcome L tn args w = Thrown e"
  using assms
  by (auto simp: run_outcome_def Visca2Uvc_cases chain_opens_def dispatch_def
      cmd_set_zoom_abs_def Let_def start_def split: prod.splits)

lemma parse_thrown_rel_step:
  assumes "1 < length args" and "chain_opens L w"
    and "args ! 1 = ''set_zoom_rel''" and "length args = 5"
    and "(SimpleAtoi (tn T_int8) (args ! 2) :: Status + 8 word) = Inl e"
  shows "run_outcome L tn args w = Thrown e"
  using assms
  by (auto simp: run_outcome_def Visca2Uvc_cases chain_opens_def dispatch_def
      cmd_set_zoom_rel_def Let_def start_def split: prod.splits)

lemma parse_thrown_rel_flag:
  assumes "1 < length args" and "chain_opens L w"
    and "args ! 1 = ''set_zoom_rel''" and "length args = 5"
    and "(SimpleAtoi (tn T_int8) (args ! 2) :: Status + 8 word) = Inr z"
    and "(SimpleAtoi (tn T_uint8) (args ! 3) :: Status + 8 word) = Inl e"
  shows "run_outcome L tn args w = Thrown e"
  using assms
  by (auto simp: run_outcome_def Visca2Uvc_cases chain_opens_def dispatch_def
      cmd_set_zoom_rel_def Let_def start_def split: prod.splits)

lemma arity_returned_abs:
  assumes "1 < length args" and "chain_opens L w"
    and "args ! 1 = ''set_zoom_abs''" and "length args \<noteq> 3"
  shows "run_outcome L tn args w =
           Returned (InvalidArgumentError ''set_zoom_abs needs 1 argument.'')"
  using assms
  by (auto simp: run_outcome_def Visca2Uvc_cases chain_opens_def dispatch_def
      cmd_set_zoom_abs_def Let_def start_def split: prod.splits)

lemma arity_returned_rel:
  assumes "1 < length args" and "chain_opens L w"
    and "args ! 1 = ''set_zoom_rel''" and "length args \<noteq> 5"
  shows "run_outcome L tn args w =
           Returned (InvalidArgumentError ''set_zoom_rel needs 3 argument.'')"
  using assms
  by (auto simp: run_outcome_def Visca2Uvc_cases chain_opens_def dispatch_def
      cmd_set_zoom_rel_def Let_def start_def split: prod.splits)

lemma run_ends:
  "(case run_outcome L tn args w of
      Returned st \<Rightarrow>
        (st = OkStatus \<or> st \<in> set arity_errors) \<and> fst (main L tn args (start w)) = 0 \<and>
        trace (snd (main L tn args (start w))) =
          run_trace L tn args w @ (if ok st then [] else [Stderr (ToString st @ ''\<newline>'')])
    | Thrown e \<Rightarrow>
        ((\<exists>err. err < 0 \<and> e \<in> set (subsystem_errors L err)) \<or> e \<in> set (parse_errors tn args)) \<and>
        fst (main L tn args (start w)) = 1 \<and>
        trace (snd (main L tn args (start w))) =
          run_trace L tn args w @ [Stderr (''Exception: '' @ what e @ ''\<newline>'')])"
proof (cases "fst (Visca2Uvc L tn args (start w))")
  case (Returned st)
  then have "st = OkStatus \<or> st \<in> set arity_errors" by (rule returned_status)
  moreover have "fst (main L tn args (start w)) = 0"
    using Returned by (simp add: main_def case_prod_beta)
  moreover have "trace (snd (main L tn args (start w))) =
        trace (snd (Visca2Uvc L tn args (start w))) @
        (if ok st then [] else [Stderr (ToString st @ ''\<newline>'')])"
    using Returned by (simp add: main_def emit_def case_prod_beta)
  ultimately show ?thesis using Returned by (simp add: run_outcome_def run_trace_def)
next
  case (Thrown e)
  then have "(\<exists>err. err < 0 \<and> e \<in> set (subsystem_errors L err)) \<or> e \<in> set (parse_errors tn args)"
    by (rule thrown_status)
  moreover have "fst (main L tn args (start w)) = 1"
    using Thrown by (simp add: main_def case_prod_beta)
  moreover have "trace (snd (main L tn args (start w))) =
        trace (snd (Visca2Uvc L tn args (start w))) @
        [Stderr (''Exception: '' @ what e @ ''\<newline>'')]"
    using Thrown by (simp add: main_def emit_def case_prod_beta)
  ultimately show ?thesis using Thrown by (simp add: run_outcome_def run_trace_def)
qed

lemma chain_fails_run_thrown:
  assumes "1 < length args" and "\<not> chain_opens L w"
  shows "\<exists>e. run_outcome L tn args w = Thrown e"
  using chain_fails_thrown [of args L "start w" tn] assms
  by (simp add: run_outcome_def start_def)

text \<open>
  Claim C7, amended. The only error status that the dispatcher returns is an arity error
  (\<open>set_zoom_abs\<close> with another number of arguments than 1, \<open>set_zoom_rel\<close> with another
  number than 3, the device being open), and then the exit code is 0 and the status is
  written to the error stream. Every other failure that ends the dispatch is thrown: a
  negative status of \<open>uvc_init\<close>, \<open>uvc_find_device\<close>, \<open>uvc_open\<close>, \<open>uvc_get_zoom_abs\<close> or
  \<open>uvc_get_zoom_rel\<close> anywhere in the run makes the dispatcher end with the exception that
  carries the name of the call and the subsystem's message, and so does a parse error of
  the argument of \<open>set_zoom_abs\<close> and of the first and the second argument of
  \<open>set_zoom_rel\<close>. Every exception that leaves the dispatcher carries such a subsystem error
  or parse error, and \<open>main\<close> turns it into exit code 1 and a line \<open>"Exception: ..."\<close> on
  the error stream. A negative status of a set transfer is neither returned nor thrown:
  its text is written to standard output, the current value is queried, and the
  dispatcher returns OK exactly when that query is answered by a status that is not
  negative.
\<close>

theorem failures_are_thrown_except_arity:
  "(case run_outcome L tn args w of
      Returned st \<Rightarrow>
        (st = OkStatus \<or> st \<in> set arity_errors) \<and> fst (main L tn args (start w)) = 0 \<and>
        trace (snd (main L tn args (start w))) =
          run_trace L tn args w @ (if ok st then [] else [Stderr (ToString st @ ''\<newline>'')])
    | Thrown e \<Rightarrow>
        ((\<exists>err. err < 0 \<and> e \<in> set (subsystem_errors L err)) \<or> e \<in> set (parse_errors tn args)) \<and>
        fst (main L tn args (start w)) = 1 \<and>
        trace (snd (main L tn args (start w))) =
          run_trace L tn args w @ [Stderr (''Exception: '' @ what e @ ''\<newline>'')])
   \<and> (1 < length args \<and> chain_opens L w \<and> args ! 1 = ''set_zoom_abs'' \<and> length args \<noteq> 3 \<longrightarrow>
        run_outcome L tn args w =
          Returned (InvalidArgumentError ''set_zoom_abs needs 1 argument.''))
   \<and> (1 < length args \<and> chain_opens L w \<and> args ! 1 = ''set_zoom_rel'' \<and> length args \<noteq> 5 \<longrightarrow>
        run_outcome L tn args w =
          Returned (InvalidArgumentError ''set_zoom_rel needs 3 argument.''))
   \<and> (1 < length args \<and> \<not> chain_opens L w \<longrightarrow> (\<exists>e. run_outcome L tn args w = Thrown e))
   \<and> (Ev_init ie ic \<in> set (run_trace L tn args w) \<and> ie < 0 \<longrightarrow>
        run_outcome L tn args w = Thrown (InternalError (''uvc_init: '' @ uvc_strerror L ie)))
   \<and> (Ev_find_device fp fe fd \<in> set (run_trace L tn args w) \<and> fe < 0 \<longrightarrow>
        run_outcome L tn args w =
          Thrown (InternalError (''uvc_find_device: '' @ uvc_strerror L fe)))
   \<and> (Ev_open op oe oh \<in> set (run_trace L tn args w) \<and> oe < 0 \<longrightarrow>
        run_outcome L tn args w = Thrown (InternalError (''uvc_open: '' @ uvc_strerror L oe)))
   \<and> (Ev_get_zoom_abs ap aq ae av \<in> set (run_trace L tn args w) \<and> ae < 0 \<longrightarrow>
        run_outcome L tn args w =
          Thrown (InternalError (''uvc_get_zoom_abs: '' @ uvc_strerror L ae)))
   \<and> (Ev_get_zoom_rel rp rq re rv \<in> set (run_trace L tn args w) \<and> re < 0 \<longrightarrow>
        run_outcome L tn args w =
          Thrown (InternalError (''uvc_get_zoom_rel: '' @ uvc_strerror L re)))
   \<and> (1 < length args \<and> chain_opens L w \<and> args ! 1 = ''set_zoom_abs'' \<and> length args = 3 \<and>
      (SimpleAtoi (tn T_uint16) (args ! 2) :: Status + 16 word) = Inl pa \<longrightarrow>
        run_outcome L tn args w = Thrown pa)
   \<and> (1 < length args \<and> chain_opens L w \<and> args ! 1 = ''set_zoom_rel'' \<and> length args = 5 \<and>
      (SimpleAtoi (tn T_int8) (args ! 2) :: Status + 8 word) = Inl pb \<longrightarrow>
        run_outcome L tn args w = Thrown pb)
   \<and> (1 < length args \<and> chain_opens L w \<and> args ! 1 = ''set_zoom_rel'' \<and> length args = 5 \<and>
      (SimpleAtoi (tn T_int8) (args ! 2) :: Status + 8 word) = Inr pz \<and>
      (SimpleAtoi (tn T_uint8) (args ! 3) :: Status + 8 word) = Inl pc \<longrightarrow>
        run_outcome L tn args w = Thrown pc)
   \<and> (Ev_set_zoom_abs sp sv se \<in> set (run_trace L tn args w) \<and> se < 0 \<longrightarrow>
        Stdout (''INTERNAL: uvc_set_zoom_abs: '' @ uvc_strerror L se)
          \<in> set (run_trace L tn args w) \<and>
        (\<exists>a v. Ev_get_zoom_abs sp UVC_GET_CUR a v \<in> set (run_trace L tn args w) \<and>
               (run_outcome L tn args w = Returned OkStatus) = (0 \<le> a)))
   \<and> (Ev_set_zoom_rel tp tz te \<in> set (run_trace L tn args w) \<and> te < 0 \<longrightarrow>
        Stdout (''INTERNAL: uvc_set_zoom_rel: '' @ uvc_strerror L te)
          \<in> set (run_trace L tn args w) \<and>
        (\<exists>a v. Ev_get_zoom_rel tp UVC_GET_CUR a v \<in> set (run_trace L tn args w) \<and>
               (run_outcome L tn args w = Returned OkStatus) = (0 \<le> a)))"
  by (intro conjI impI run_ends;
      (elim conjE)?;
      (erule (3) arity_returned_abs | erule (3) arity_returned_rel |
       erule (1) chain_fails_run_thrown | erule (1) thrown_init | erule (1) thrown_find |
       erule (1) thrown_open | erule (1) thrown_get_abs | erule (1) thrown_get_rel |
       erule (4) parse_thrown_abs | erule (4) parse_thrown_rel_step |
       erule (5) parse_thrown_rel_flag |
       (drule (1) failed_set_abs_goes_on, blast) | (drule (1) failed_set_rel_goes_on, blast))?)

theorem failures_are_thrown_except_arity_witness:
  "(1 < length [''visca2uvc'', ''set_zoom_abs''] \<and>
    chain_opens fake_libuvc good_camera \<and>
    [''visca2uvc'', ''set_zoom_abs''] ! 1 = ''set_zoom_abs'' \<and>
    length [''visca2uvc'', ''set_zoom_abs''] \<noteq> 3 \<and>
    run_outcome fake_libuvc gcc_names [''visca2uvc'', ''set_zoom_abs''] good_camera =
      Returned (InvalidArgumentError ''set_zoom_abs needs 1 argument.''))
   \<and> (1 < length [''visca2uvc'', ''set_zoom_rel'', ''5'', ''1''] \<and>
    chain_opens fake_libuvc good_camera \<and>
    [''visca2uvc'', ''set_zoom_rel'', ''5'', ''1''] ! 1 = ''set_zoom_rel'' \<and>
    length [''visca2uvc'', ''set_zoom_rel'', ''5'', ''1''] \<noteq> 5 \<and>
    run_outcome fake_libuvc gcc_names [''visca2uvc'', ''set_zoom_rel'', ''5'', ''1''] good_camera =
      Returned (InvalidArgumentError ''set_zoom_rel needs 3 argument.''))
   \<and> (1 < length [''visca2uvc'', ''get_zoom_abs''] \<and>
    \<not> chain_opens fake_libuvc (good_camera\<lparr>find_status := - 4\<rparr>) \<and>
    (\<exists>e. run_outcome fake_libuvc gcc_names [''visca2uvc'', ''get_zoom_abs'']
         (good_camera\<lparr>find_status := - 4\<rparr>) = Thrown e))
   \<and> (Ev_init (- 1) 1 \<in>
      set (run_trace fake_libuvc gcc_names [''visca2uvc'', ''get_zoom_abs'']
             (good_camera\<lparr>init_status := - 1\<rparr>)) \<and>
    (- 1 :: int) < 0 \<and>
    run_outcome fake_libuvc gcc_names [''visca2uvc'', ''get_zoom_abs'']
         (good_camera\<lparr>init_status := - 1\<rparr>) =
      Thrown (InternalError (''uvc_init: '' @ uvc_strerror fake_libuvc (- 1))))
   \<and> (Ev_find_device (Some 1) (- 4) 2 \<in>
      set (run_trace fake_libuvc gcc_names [''visca2uvc'', ''get_zoom_abs'']
             (good_camera\<lparr>find_status := - 4\<rparr>)) \<and>
    (- 4 :: int) < 0 \<and>
    run_outcome fake_libuvc gcc_names [''visca2uvc'', ''get_zoom_abs'']
         (good_camera\<lparr>find_status := - 4\<rparr>) =
      Thrown (InternalError (''uvc_find_device: '' @ uvc_strerror fake_libuvc (- 4))))
   \<and> (Ev_open (Some 2) (- 1) 3 \<in>
      set (run_trace fake_libuvc gcc_names [''visca2uvc'', ''get_zoom_abs'']
             (good_camera\<lparr>open_status := - 1\<rparr>)) \<and>
    (- 1 :: int) < 0 \<and>
    run_outcome fake_libuvc gcc_names [''visca2uvc'', ''get_zoom_abs'']
         (good_camera\<lparr>open_status := - 1\<rparr>) =
      Thrown (InternalError (''uvc_open: '' @ uvc_strerror fake_libuvc (- 1))))
   \<and> (Ev_get_zoom_abs (Some 3) UVC_GET_MIN (- 1) 0 \<in>
      set (run_trace fake_libuvc gcc_names [''visca2uvc'', ''get_zoom_abs'']
             (good_camera\<lparr>get_status := - 1\<rparr>)) \<and>
    (- 1 :: int) < 0 \<and>
    run_outcome fake_libuvc gcc_names [''visca2uvc'', ''get_zoom_abs'']
         (good_camera\<lparr>get_status := - 1\<rparr>) =
      Thrown (InternalError (''uvc_get_zoom_abs: '' @ uvc_strerror fake_libuvc (- 1))))
   \<and> (Ev_get_zoom_rel (Some 3) UVC_GET_MIN (- 1)
        \<lparr>zoom_rel = 49, digital_zoom = 48, speed = 50\<rparr> \<in>
      set (run_trace fake_libuvc gcc_names [''visca2uvc'', ''get_zoom_rel'']
             (good_camera\<lparr>get_status := - 1\<rparr>)) \<and>
    (- 1 :: int) < 0 \<and>
    run_outcome fake_libuvc gcc_names [''visca2uvc'', ''get_zoom_rel'']
         (good_camera\<lparr>get_status := - 1\<rparr>) =
      Thrown (InternalError (''uvc_get_zoom_rel: '' @ uvc_strerror fake_libuvc (- 1))))
   \<and> (1 < length [''visca2uvc'', ''set_zoom_abs'', ''abc''] \<and>
    chain_opens fake_libuvc good_camera \<and>
    [''visca2uvc'', ''set_zoom_abs'', ''abc''] ! 1 = ''set_zoom_abs'' \<and>
    length [''visca2uvc'', ''set_zoom_abs'', ''abc''] = 3 \<and>
    (SimpleAtoi (gcc_names T_uint16) ([''visca2uvc'', ''set_zoom_abs'', ''abc''] ! 2)
       :: Status + 16 word) = Inl (InvalidArgumentError ''Cannot parse as t: abc'') \<and>
    run_outcome fake_libuvc gcc_names [''visca2uvc'', ''set_zoom_abs'', ''abc''] good_camera =
      Thrown (InvalidArgumentError ''Cannot parse as t: abc''))
   \<and> (1 < length [''visca2uvc'', ''set_zoom_rel'', ''-5'', ''1'', ''10''] \<and>
    chain_opens fake_libuvc good_camera \<and>
    [''visca2uvc'', ''set_zoom_rel'', ''-5'', ''1'', ''10''] ! 1 = ''set_zoom_rel'' \<and>
    length [''visca2uvc'', ''set_zoom_rel'', ''-5'', ''1'', ''10''] = 5 \<and>
    (SimpleAtoi (gcc_names T_int8) ([''visca2uvc'', ''set_zoom_rel'', ''-5'', ''1'', ''10''] ! 2)
       :: Status + 8 word) = Inl (InvalidArgumentError ''Cannot parse as a: -5'') \<and>
    run_outcome fake_libuvc gcc_names [''visca2uvc'', ''set_zoom_rel'', ''-5'', ''1'', ''10''] good_camera =
      Thrown (InvalidArgumentError ''Cannot parse as a: -5''))
   \<and> (1 < length [''visca2uvc'', ''set_zoom_rel'', ''5'', ''x'', ''10''] \<and>
    chain_opens fake_libuvc good_camera \<and>
    [''visca2uvc'', ''set_zoom_rel'', ''5'', ''x'', ''10''] ! 1 = ''set_zoom_rel'' \<and>
    length [''visca2uvc'', ''set_zoom_rel'', ''5'', ''x'', ''10''] = 5 \<and>
    (SimpleAtoi (gcc_names T_int8) ([''visca2uvc'', ''set_zoom_rel'', ''5'', ''x'', ''10''] ! 2)
       :: Status + 8 word) = Inr 5 \<and>
    (SimpleAtoi (gcc_names T_uint8) ([''visca2uvc'', ''set_zoom_rel'', ''5'', ''x'', ''10''] ! 3)
       :: Status + 8 word) = Inl (InvalidArgumentError ''Cannot parse as h: x'') \<and>
    run_outcome fake_libuvc gcc_names [''visca2uvc'', ''set_zoom_rel'', ''5'', ''x'', ''10''] good_camera =
      Thrown (InvalidArgumentError ''Cannot parse as h: x''))
   \<and> (Ev_set_zoom_abs (Some 3) 500 (- 1) \<in>
      set (run_trace fake_libuvc gcc_names [''visca2uvc'', ''set_zoom_abs'', ''500'']
             (good_camera\<lparr>set_status := - 1\<rparr>)) \<and>
    (- 1 :: int) < 0 \<and>
    Stdout (''INTERNAL: uvc_set_zoom_abs: '' @ uvc_strerror fake_libuvc (- 1)) \<in>
      set (run_trace fake_libuvc gcc_names [''visca2uvc'', ''set_zoom_abs'', ''500'']
             (good_camera\<lparr>set_status := - 1\<rparr>)) \<and>
    (\<exists>a v. Ev_get_zoom_abs (Some 3) UVC_GET_CUR a v \<in>
        set (run_trace fake_libuvc gcc_names [''visca2uvc'', ''set_zoom_abs'', ''500'']
             (good_camera\<lparr>set_status := - 1\<rparr>)) \<and>
      (run_outcome fake_libuvc gcc_names [''visca2uvc'', ''set_zoom_abs'', ''500'']
         (good_camera\<lparr>set_status := - 1\<rparr>) = Returned OkStatus) = (0 \<le> a)))
   \<and> (Ev_set_zoom_rel (Some 3) \<lparr>zoom_rel = 5, digital_zoom = 1, speed = 1\<rparr> (- 1) \<in>
      set (run_trace fake_libuvc gcc_names [''visca2uvc'', ''set_zoom_rel'', ''5'', ''1'', ''10'']
             (good_camera\<lparr>set_status := - 1\<rparr>)) \<and>
    (- 1 :: int) < 0 \<and>
    Stdout (''INTERNAL: uvc_set_zoom_rel: '' @ uvc_strerror fake_libuvc (- 1)) \<in>
      set (run_trace fake_libuvc gcc_names [''visca2uvc'', ''set_zoom_rel'', ''5'', ''1'', ''10'']
             (good_camera\<lparr>set_status := - 1\<rparr>)) \<and>
    (\<exists>a v. Ev_get_zoom_rel (Some 3) UVC_GET_CUR a v \<in>
        set (run_trace fake_libuvc gcc_names [''visca2uvc'', ''set_zoom_rel'', ''5'', ''1'', ''10'']
             (good_camera\<lparr>set_status := - 1\<rparr>)) \<and>
      (run_outcome fake_libuvc gcc_names [''visca2uvc'', ''set_zoom_rel'', ''5'', ''1'', ''10'']
         (good_camera\<lparr>set_status := - 1\<rparr>) = Returned OkStatus) = (0 \<le> a)))"
proof -
  let ?a1 = "[''visca2uvc'', ''set_zoom_abs'']"
  let ?a2 = "[''visca2uvc'', ''set_zoom_rel'', ''5'', ''1'']"
  let ?a3 = "[''visca2uvc'', ''get_zoom_abs'']"
  let ?c3 = "good_camera\<lparr>find_status := - 4\<rparr>"
  let ?a4 = "[''visca2uvc'', ''get_zoom_abs'']"
  let ?c4 = "good_camera\<lparr>init_status := - 1\<rparr>"
  let ?a5 = "[''visca2uvc'', ''get_zoom_abs'']"
  let ?c5 = "good_camera\<lparr>find_status := - 4\<rparr>"
  let ?a6 = "[''visca2uvc'', ''get_zoom_abs'']"
  let ?c6 = "good_camera\<lparr>open_status := - 1\<rparr>"
  let ?a7 = "[''visca2uvc'', ''get_zoom_abs'']"
  let ?c7 = "good_camera\<lparr>get_status := - 1\<rparr>"
  let ?a8 = "[''visca2uvc'', ''get_zoom_rel'']"
  let ?c8 = "good_camera\<lparr>get_status := - 1\<rparr>"
  let ?a9 = "[''visca2uvc'', ''set_zoom_abs'', ''abc'']"
  let ?a10 = "[''visca2uvc'', ''set_zoom_rel'', ''-5'', ''1'', ''10'']"
  let ?a11 = "[''visca2uvc'', ''set_zoom_rel'', ''5'', ''x'', ''10'']"
  let ?a12 = "[''visca2uvc'', ''set_zoom_abs'', ''500'']"
  let ?c12 = "good_camera\<lparr>set_status := - 1\<rparr>"
  let ?a13 = "[''visca2uvc'', ''set_zoom_rel'', ''5'', ''1'', ''10'']"
  let ?c13 = "good_camera\<lparr>set_status := - 1\<rparr>"
  have ar1_h0: "1 < length ?a1"
    by (simp add: run_trace_def run_eval parser_eval chain_opens_def)
  have ar1_h1: "chain_opens fake_libuvc good_camera"
    by (simp add: run_trace_def run_eval parser_eval chain_opens_def)
  have ar1_h2: "?a1 ! 1 = ''set_zoom_abs''"
    by (simp add: run_trace_def run_eval parser_eval chain_opens_def)
  have ar1_h3: "length ?a1 \<noteq> 3"
    by (simp add: run_trace_def run_eval parser_eval chain_opens_def)
  have ar1_c: "run_outcome fake_libuvc gcc_names ?a1 good_camera =
      Returned (InvalidArgumentError ''set_zoom_abs needs 1 argument.'')"
    by (rule failures_are_thrown_except_arity
      [where L = fake_libuvc and tn = gcc_names and args = "?a1" and w = good_camera,
       THEN conjunct2, THEN conjunct1, THEN mp])
       (intro conjI ar1_h0 ar1_h1 ar1_h2 ar1_h3)
  have ar2_h0: "1 < length ?a2"
    by (simp add: run_trace_def run_eval parser_eval chain_opens_def)
  have ar2_h1: "chain_opens fake_libuvc good_camera"
    by (simp add: run_trace_def run_eval parser_eval chain_opens_def)
  have ar2_h2: "?a2 ! 1 = ''set_zoom_rel''"
    by (simp add: run_trace_def run_eval parser_eval chain_opens_def)
  have ar2_h3: "length ?a2 \<noteq> 5"
    by (simp add: run_trace_def run_eval parser_eval chain_opens_def)
  have ar2_c: "run_outcome fake_libuvc gcc_names ?a2 good_camera =
      Returned (InvalidArgumentError ''set_zoom_rel needs 3 argument.'')"
    by (rule failures_are_thrown_except_arity
      [where L = fake_libuvc and tn = gcc_names and args = "?a2" and w = good_camera,
       THEN conjunct2, THEN conjunct2, THEN conjunct1, THEN mp])
       (intro conjI ar2_h0 ar2_h1 ar2_h2 ar2_h3)
  have chn_h0: "1 < length ?a3"
    by (simp add: run_trace_def run_eval parser_eval chain_opens_def)
  have chn_h1: "\<not> chain_opens fake_libuvc ?c3"
    by (simp add: run_trace_def run_eval parser_eval chain_opens_def)
  have chn_c: "(\<exists>e. run_outcome fake_libuvc gcc_names ?a3 ?c3 = Thrown e)"
    by (rule failures_are_thrown_except_arity
      [where L = fake_libuvc and tn = gcc_names and args = "?a3" and w = "?c3",
       THEN conjunct2, THEN conjunct2, THEN conjunct2, THEN conjunct1, THEN mp])
       (intro conjI chn_h0 chn_h1)
  have ini_h0: "Ev_init (- 1) 1 \<in>
      set (run_trace fake_libuvc gcc_names ?a4 ?c4)"
    by (simp add: run_trace_def run_eval parser_eval chain_opens_def)
  have ini_h1: "(- 1 :: int) < 0"
    by (simp add: run_trace_def run_eval parser_eval chain_opens_def)
  have ini_c: "run_outcome fake_libuvc gcc_names ?a4 ?c4 =
      Thrown (InternalError (''uvc_init: '' @ uvc_strerror fake_libuvc (- 1)))"
    by (rule failures_are_thrown_except_arity
      [where L = fake_libuvc and tn = gcc_names and args = "?a4" and w = "?c4" and ie = "- 1" and
       ic = 1,
       THEN conjunct2, THEN conjunct2, THEN conjunct2, THEN conjunct2, THEN conjunct1, THEN mp])
       (intro conjI ini_h0 ini_h1)
  have fnd_h0: "Ev_find_device (Some 1) (- 4) 2 \<in>
      set (run_trace fake_libuvc gcc_names ?a5 ?c5)"
    by (simp add: run_trace_def run_eval parser_eval chain_opens_def)
  have fnd_h1: "(- 4 :: int) < 0"
    by (simp add: run_trace_def run_eval parser_eval chain_opens_def)
  have fnd_c: "run_outcome fake_libuvc gcc_names ?a5 ?c5 =
      Thrown (InternalError (''uvc_find_device: '' @ uvc_strerror fake_libuvc (- 4)))"
    by (rule failures_are_thrown_except_arity
      [where L = fake_libuvc and tn = gcc_names and args = "?a5" and w = "?c5" and
       fp = "Some 1" and fe = "- 4" and fd = 2,
       THEN conjunct2, THEN conjunct2, THEN conjunct2, THEN conjunct2, THEN conjunct2,
       THEN conjunct1, THEN mp])
       (intro conjI fnd_h0 fnd_h1)
  have opn_h0: "Ev_open (Some 2) (- 1) 3 \<in>
      set (run_trace fake_libuvc gcc_names ?a6 ?c6)"
    by (simp add: run_trace_def run_eval parser_eval chain_opens_def)
  have opn_h1: "(- 1 :: int) < 0"
    by (simp add: run_trace_def run_eval parser_eval chain_opens_def)
  have opn_c: "run_outcome fake_libuvc gcc_names ?a6 ?c6 =
      Thrown (InternalError (''uvc_open: '' @ uvc_strerror fake_libuvc (- 1)))"
    by (rule failures_are_thrown_except_arity
      [where L = fake_libuvc and tn = gcc_names and args = "?a6" and w = "?c6" and
       op = "Some 2" and oe = "- 1" and oh = 3,
       THEN conjunct2, THEN conjunct2, THEN conjunct2, THEN conjunct2, THEN conjunct2,
       THEN conjunct2, THEN conjunct1, THEN mp])
       (intro conjI opn_h0 opn_h1)
  have gab_h0: "Ev_get_zoom_abs (Some 3) UVC_GET_MIN (- 1) 0 \<in>
      set (run_trace fake_libuvc gcc_names ?a7 ?c7)"
    by (simp add: run_trace_def run_eval parser_eval chain_opens_def)
  have gab_h1: "(- 1 :: int) < 0"
    by (simp add: run_trace_def run_eval parser_eval chain_opens_def)
  have gab_c: "run_outcome fake_libuvc gcc_names ?a7 ?c7 =
      Thrown (InternalError (''uvc_get_zoom_abs: '' @ uvc_strerror fake_libuvc (- 1)))"
    by (rule failures_are_thrown_except_arity
      [where L = fake_libuvc and tn = gcc_names and args = "?a7" and w = "?c7" and
       ap = "Some 3" and aq = UVC_GET_MIN and ae = "- 1" and av = 0,
       THEN conjunct2, THEN conjunct2, THEN conjunct2, THEN conjunct2, THEN conjunct2,
       THEN conjunct2, THEN conjunct2, THEN conjunct1, THEN mp])
       (intro conjI gab_h0 gab_h1)
  have grl_h0: "Ev_get_zoom_rel (Some 3) UVC_GET_MIN (- 1)
        \<lparr>zoom_rel = 49, digital_zoom = 48, speed = 50\<rparr> \<in>
      set (run_trace fake_libuvc gcc_names ?a8 ?c8)"
    by (simp add: run_trace_def run_eval parser_eval chain_opens_def)
  have grl_h1: "(- 1 :: int) < 0"
    by (simp add: run_trace_def run_eval parser_eval chain_opens_def)
  have grl_c: "run_outcome fake_libuvc gcc_names ?a8 ?c8 =
      Thrown (InternalError (''uvc_get_zoom_rel: '' @ uvc_strerror fake_libuvc (- 1)))"
    by (rule failures_are_thrown_except_arity
      [where L = fake_libuvc and tn = gcc_names and args = "?a8" and w = "?c8" and
       rp = "Some 3" and rq = UVC_GET_MIN and re = "- 1" and
       rv = "\<lparr>zoom_rel = 49, digital_zoom = 48, speed = 50\<rparr>",
       THEN conjunct2, THEN conjunct2, THEN conjunct2, THEN conjunct2, THEN conjunct2,
       THEN conjunct2, THEN conjunct2, THEN conjunct2, THEN conjunct1, THEN mp])
       (intro conjI grl_h0 grl_h1)
  have pab_h0: "1 < length ?a9"
    by (simp add: run_trace_def run_eval parser_eval chain_opens_def)
  have pab_h1: "chain_opens fake_libuvc good_camera"
    by (simp add: run_trace_def run_eval parser_eval chain_opens_def)
  have pab_h2: "?a9 ! 1 = ''set_zoom_abs''"
    by (simp add: run_trace_def run_eval parser_eval chain_opens_def)
  have pab_h3: "length ?a9 = 3"
    by (simp add: run_trace_def run_eval parser_eval chain_opens_def)
  have pab_h4: "(SimpleAtoi (gcc_names T_uint16) (?a9 ! 2)
       :: Status + 16 word) = Inl (InvalidArgumentError ''Cannot parse as t: abc'')"
    by (simp add: run_trace_def run_eval parser_eval chain_opens_def)
  have pab_c: "run_outcome fake_libuvc gcc_names ?a9 good_camera =
      Thrown (InvalidArgumentError ''Cannot parse as t: abc'')"
    by (rule failures_are_thrown_except_arity
      [where L = fake_libuvc and tn = gcc_names and args = "?a9" and w = good_camera and
       pa = "InvalidArgumentError ''Cannot parse as t: abc''",
       THEN conjunct2, THEN conjunct2, THEN conjunct2, THEN conjunct2, THEN conjunct2,
       THEN conjunct2, THEN conjunct2, THEN conjunct2, THEN conjunct2, THEN conjunct1, THEN mp])
       (intro conjI pab_h0 pab_h1 pab_h2 pab_h3 pab_h4)
  have pst_h0: "1 < length ?a10"
    by (simp add: run_trace_def run_eval parser_eval chain_opens_def)
  have pst_h1: "chain_opens fake_libuvc good_camera"
    by (simp add: run_trace_def run_eval parser_eval chain_opens_def)
  have pst_h2: "?a10 ! 1 = ''set_zoom_rel''"
    by (simp add: run_trace_def run_eval parser_eval chain_opens_def)
  have pst_h3: "length ?a10 = 5"
    by (simp add: run_trace_def run_eval parser_eval chain_opens_def)
  have pst_h4: "(SimpleAtoi (gcc_names T_int8) (?a10 ! 2)
       :: Status + 8 word) = Inl (InvalidArgumentError ''Cannot parse as a: -5'')"
    by (simp add: run_trace_def run_eval parser_eval chain_opens_def)
  have pst_c: "run_outcome fake_libuvc gcc_names ?a10 good_camera =
      Thrown (InvalidArgumentError ''Cannot parse as a: -5'')"
    by (rule failures_are_thrown_except_arity
      [where L = fake_libuvc and tn = gcc_names and args = "?a10" and w = good_camera and
       pb = "InvalidArgumentError ''Cannot parse as a: -5''",
       THEN conjunct2, THEN conjunct2, THEN conjunct2, THEN conjunct2, THEN conjunct2,
       THEN conjunct2, THEN conjunct2, THEN conjunct2, THEN conjunct2, THEN conjunct2,
       THEN conjunct1, THEN mp])
       (intro conjI pst_h0 pst_h1 pst_h2 pst_h3 pst_h4)
  have pfl_h0: "1 < length ?a11"
    by (simp add: run_trace_def run_eval parser_eval chain_opens_def)
  have pfl_h1: "chain_opens fake_libuvc good_camera"
    by (simp add: run_trace_def run_eval parser_eval chain_opens_def)
  have pfl_h2: "?a11 ! 1 = ''set_zoom_rel''"
    by (simp add: run_trace_def run_eval parser_eval chain_opens_def)
  have pfl_h3: "length ?a11 = 5"
    by (simp add: run_trace_def run_eval parser_eval chain_opens_def)
  have pfl_h4: "(SimpleAtoi (gcc_names T_int8) (?a11 ! 2)
       :: Status + 8 word) = Inr 5"
    by (simp add: run_trace_def run_eval parser_eval chain_opens_def)
  have pfl_h5: "(SimpleAtoi (gcc_names T_uint8) (?a11 ! 3)
       :: Status + 8 word) = Inl (InvalidArgumentError ''Cannot parse as h: x'')"
    by (simp add: run_trace_def run_eval parser_eval chain_opens_def)
  have pfl_c: "run_outcome fake_libuvc gcc_names ?a11 good_camera =
      Thrown (InvalidArgumentError ''Cannot parse as h: x'')"
    by (rule failures_are_thrown_except_arity
      [where L = fake_libuvc and tn = gcc_names and args = "?a11" and w = good_camera and
       pz = 5 and pc = "InvalidArgumentError ''Cannot parse as h: x''",
       THEN conjunct2, THEN conjunct2, THEN conjunct2, THEN conjunct2, THEN conjunct2,
       THEN conjunct2, THEN conjunct2, THEN conjunct2, THEN conjunct2, THEN conjunct2,
       THEN conjunct2, THEN conjunct1, THEN mp])
       (intro conjI pfl_h0 pfl_h1 pfl_h2 pfl_h3 pfl_h4 pfl_h5)
  have sab_h0: "Ev_set_zoom_abs (Some 3) 500 (- 1) \<in>
      set (run_trace fake_libuvc gcc_names ?a12 ?c12)"
    by (simp add: run_trace_def run_eval parser_eval chain_opens_def)
  have sab_h1: "(- 1 :: int) < 0"
    by (simp add: run_trace_def run_eval parser_eval chain_opens_def)
  have sab_c: "Stdout (''INTERNAL: uvc_set_zoom_abs: '' @ uvc_strerror fake_libuvc (- 1)) \<in>
      set (run_trace fake_libuvc gcc_names ?a12 ?c12) \<and>
    (\<exists>a v. Ev_get_zoom_abs (Some 3) UVC_GET_CUR a v \<in>
        set (run_trace fake_libuvc gcc_names ?a12 ?c12) \<and>
      (run_outcome fake_libuvc gcc_names ?a12 ?c12 = Returned OkStatus) = (0 \<le> a))"
    by (rule failures_are_thrown_except_arity
      [where L = fake_libuvc and tn = gcc_names and args = "?a12" and w = "?c12" and
       sp = "Some 3" and sv = 500 and se = "- 1",
       THEN conjunct2, THEN conjunct2, THEN conjunct2, THEN conjunct2, THEN conjunct2,
       THEN conjunct2, THEN conjunct2, THEN conjunct2, THEN conjunct2, THEN conjunct2,
       THEN conjunct2, THEN conjunct2, THEN conjunct1, THEN mp])
       (intro conjI sab_h0 sab_h1)
  have srl_h0: "Ev_set_zoom_rel (Some 3) \<lparr>zoom_rel = 5, digital_zoom = 1, speed = 1\<rparr> (- 1) \<in>
      set (run_trace fake_libuvc gcc_names ?a13 ?c13)"
    by (simp add: run_trace_def run_eval parser_eval chain_opens_def)
  have srl_h1: "(- 1 :: int) < 0"
    by (simp add: run_trace_def run_eval parser_eval chain_opens_def)
  have srl_c: "Stdout (''INTERNAL: uvc_set_zoom_rel: '' @ uvc_strerror fake_libuvc (- 1)) \<in>
      set (run_trace fake_libuvc gcc_names ?a13 ?c13) \<and>
    (\<exists>a v. Ev_get_zoom_rel (Some 3) UVC_GET_CUR a v \<in>
        set (run_trace fake_libuvc gcc_names ?a13 ?c13) \<and>
      (run_outcome fake_libuvc gcc_names ?a13 ?c13 = Returned OkStatus) = (0 \<le> a))"
    by (rule failures_are_thrown_except_arity
      [where L = fake_libuvc and tn = gcc_names and args = "?a13" and w = "?c13" and
       tp = "Some 3" and tz = "\<lparr>zoom_rel = 5, digital_zoom = 1, speed = 1\<rparr>" and
       te = "- 1",
       THEN conjunct2, THEN conjunct2, THEN conjunct2, THEN conjunct2, THEN conjunct2,
       THEN conjunct2, THEN conjunct2, THEN conjunct2, THEN conjunct2, THEN conjunct2,
       THEN conjunct2, THEN conjunct2, THEN conjunct2, THEN mp])
       (intro conjI srl_h0 srl_h1)
  show ?thesis
    by (intro conjI)
       (rule ar1_h0, rule ar1_h1, rule ar1_h2, rule ar1_h3, rule ar1_c, rule ar2_h0, rule ar2_h1,
        rule ar2_h2, rule ar2_h3, rule ar2_c, rule chn_h0, rule chn_h1, rule chn_c, rule ini_h0,
        rule ini_h1, rule ini_c, rule fnd_h0, rule fnd_h1, rule fnd_c, rule opn_h0, rule opn_h1,
        rule opn_c, rule gab_h0, rule gab_h1, rule gab_c, rule grl_h0, rule grl_h1, rule grl_c,
        rule pab_h0, rule pab_h1, rule pab_h2, rule pab_h3, rule pab_h4, rule pab_c, rule pst_h0,
        rule pst_h1, rule pst_h2, rule pst_h3, rule pst_h4, rule pst_c, rule pfl_h0, rule pfl_h1,
        rule pfl_h2, rule pfl_h3, rule pfl_h4, rule pfl_h5, rule pfl_c, rule sab_h0, rule sab_h1,
        rule sab_c [THEN conjunct1], rule sab_c [THEN conjunct2], rule srl_h0, rule srl_h1,
        rule srl_c [THEN conjunct1], rule srl_c [THEN conjunct2])
qed

section \<open>The arguments of set_zoom_rel\<close>

text \<open>
  Claim C1. The program run on \<open>set_zoom_rel -5 1 10\<close>: the step \<open>"-5"\<close> does not parse, the
  dispatcher throws and the setter is never called. On \<open>set_zoom_rel 5 1 10\<close> the setter
  receives speed 1, the value of the second token, and not 10; the third token is never
  read, so that even a token that is no number changes nothing.
\<close>

theorem set_zoom_rel_ignores_third_argument:
  "fst (Visca2Uvc fake_libuvc gcc_names [''visca2uvc'', ''set_zoom_rel'', ''-5'', ''1'', ''10'']
       (start good_camera)) = Thrown (InvalidArgumentError ''Cannot parse as a: -5'')
   \<and> zoom_transfers (trace (snd (Visca2Uvc fake_libuvc gcc_names
        [''visca2uvc'', ''set_zoom_rel'', ''-5'', ''1'', ''10''] (start good_camera)))) = []
   \<and> zoom_transfers (trace (snd (Visca2Uvc fake_libuvc gcc_names
        [''visca2uvc'', ''set_zoom_rel'', ''5'', ''1'', ''10''] (start good_camera)))) =
      [Ev_set_zoom_rel (Some 3) \<lparr>zoom_rel = 5, digital_zoom = 1, speed = 1\<rparr> 0,
       Ev_get_zoom_rel (Some 3) UVC_GET_CUR 0 \<lparr>zoom_rel = 5, digital_zoom = 1, speed = 1\<rparr>]
   \<and> zoom_transfers (trace (snd (Visca2Uvc fake_libuvc gcc_names
        [''visca2uvc'', ''set_zoom_rel'', ''5'', ''1'', ''not a number''] (start good_camera)))) =
      [Ev_set_zoom_rel (Some 3) \<lparr>zoom_rel = 5, digital_zoom = 1, speed = 1\<rparr> 0,
       Ev_get_zoom_rel (Some 3) UVC_GET_CUR 0 \<lparr>zoom_rel = 5, digital_zoom = 1, speed = 1\<rparr>]"
  by (simp add: run_eval parser_eval zoom_transfers_def)

section \<open>Resources\<close>








end
